theory Spec2Isabelle
  imports Main "HOL-Library.Word" "HOL-Library.Signed_Division"
begin

unbundle bit_operations_syntax

section \<open>Packets (rudp/packet.h)\<close>

text \<open>
  Header fields are kept in host order: the \<open>htons\<close>/\<open>ntohs\<close> pairs of the source
  cancel and are not modelled. A packet chain is a buffer and a length: \<open>header\<close> is
  what the first 8 bytes of the buffer hold, \<open>data\<close> the bytes behind them, and
  \<open>len\<close> the \<open>len\<close> field of \<open>struct rudp_packet_chain\<close>, the number of bytes
  of the datagram. The endpoint hands over datagrams of any length, so \<open>len\<close> may be
  less than 8; the header fields a short datagram does not reach are then what the buffer
  held before. For a datagram that is at least a header long, \<open>len\<close> is 8 plus the
  length of \<open>data\<close>. Fields that the source leaves unset in a freshly allocated chain
  are 0 here.
\<close>

record rudp_packet_header =
  command :: "8 word"
  opt :: "8 word"
  reliable_ack :: "16 word"
  reliable :: "16 word"
  unreliable :: "16 word"

record rudp_packet_chain =
  header :: rudp_packet_header
  data :: "8 word list"
  len :: nat

abbreviation (input) RUDP_CMD_NOOP :: "8 word" where "RUDP_CMD_NOOP \<equiv> 0"
abbreviation (input) RUDP_CMD_CLOSE :: "8 word" where "RUDP_CMD_CLOSE \<equiv> 1"
abbreviation (input) RUDP_CMD_CONN_REQ :: "8 word" where "RUDP_CMD_CONN_REQ \<equiv> 2"
abbreviation (input) RUDP_CMD_CONN_RSP :: "8 word" where "RUDP_CMD_CONN_RSP \<equiv> 3"
abbreviation (input) RUDP_CMD_PING :: "8 word" where "RUDP_CMD_PING \<equiv> 4"
abbreviation (input) RUDP_CMD_PONG :: "8 word" where "RUDP_CMD_PONG \<equiv> 5"
abbreviation (input) RUDP_CMD_APP :: "8 word" where "RUDP_CMD_APP \<equiv> 16"

abbreviation (input) RUDP_OPT_RELIABLE :: "8 word" where "RUDP_OPT_RELIABLE \<equiv> 1"
abbreviation (input) RUDP_OPT_ACK :: "8 word" where "RUDP_OPT_ACK \<equiv> 2"
abbreviation (input) RUDP_OPT_RETRANSMITTED :: "8 word" where "RUDP_OPT_RETRANSMITTED \<equiv> 4"

text \<open>The C test \<open>header->opt & FLAG\<close>.\<close>

definition has_opt :: "rudp_packet_header \<Rightarrow> 8 word \<Rightarrow> bool" where
  "has_opt h f = (opt h AND f \<noteq> 0)"

text \<open>\<open>sizeof(struct rudp_packet_header)\<close> is 8, \<open>sizeof(struct rudp_packet_conn_req)\<close>
  and \<open>sizeof(struct rudp_packet_conn_rsp)\<close> are 12.\<close>

abbreviation (input) sizeof_header :: nat where "sizeof_header \<equiv> 8"
abbreviation (input) sizeof_conn_req :: nat where "sizeof_conn_req \<equiv> 12"
abbreviation (input) sizeof_rudp_time :: nat where "sizeof_rudp_time \<equiv> 8"

text \<open>\<open>RUDP_RECV_BUFFER_SIZE\<close>, and the size \<open>rudp_packet_chain_alloc\<close> gives the
  buffer of a chain of \<open>asked\<close> bytes: never less than the receive buffer.\<close>

abbreviation (input) RUDP_RECV_BUFFER_SIZE :: nat where "RUDP_RECV_BUFFER_SIZE \<equiv> 4096"

definition alloc_size :: "nat \<Rightarrow> nat" where
  "alloc_size asked = (if asked < RUDP_RECV_BUFFER_SIZE then RUDP_RECV_BUFFER_SIZE else asked)"

text \<open>Subtraction in \<open>size_t\<close> (64 bits): it wraps around below zero.\<close>

definition size_sub :: "nat \<Rightarrow> nat \<Rightarrow> nat" where
  "size_sub a b = nat ((int a - int b) mod 2 ^ 64)"

text \<open>A zeroed header, standing for a freshly allocated buffer.\<close>

definition header0 :: rudp_packet_header where
  "header0 = \<lparr>command = 0, opt = 0, reliable_ack = 0, reliable = 0, unreliable = 0\<rparr>"

section \<open>Addresses (address.c)\<close>

record sockaddr_storage =
  ss_family :: nat
  sin_port :: "16 word"
  sin_addr :: "32 word"
  sin6_addr :: "128 word"

abbreviation (input) AF_INET :: nat where "AF_INET \<equiv> 2"
abbreviation (input) AF_INET6 :: nat where "AF_INET6 \<equiv> 10"

definition sockaddr0 :: sockaddr_storage where
  "sockaddr0 = \<lparr>ss_family = 0, sin_port = 0, sin_addr = 0, sin6_addr = 0\<rparr>"

text \<open>\<open>rudp_address_set\<close>: only the two IP families are stored; for any other family the
  call fails with \<open>EAFNOSUPPORT\<close> and the address stays as it was.\<close>

definition rudp_address_set :: "sockaddr_storage \<Rightarrow> sockaddr_storage \<Rightarrow> sockaddr_storage" where
  "rudp_address_set rua sa =
     (if ss_family sa = AF_INET \<or> ss_family sa = AF_INET6 then sa else rua)"

text \<open>\<open>rudp_address_compare\<close>: 0 when the two addresses match. The sign of \<open>memcmp\<close> is
  not modelled, a difference is 1.\<close>

definition rudp_address_compare :: "sockaddr_storage \<Rightarrow> sockaddr_storage \<Rightarrow> int" where
  "rudp_address_compare left right =
     (if ss_family left \<noteq> ss_family right then 1
      else if ss_family left = AF_INET then
        (if sin_port left \<noteq> sin_port right then 1
         else if sin_addr left = sin_addr right then 0 else 1)
      else
        (if sin_port left \<noteq> sin_port right then 1
         else if sin6_addr left = sin6_addr right then 0 else 1))"

section \<open>Peer engine (peer.c)\<close>

text \<open>
  Times are \<open>rudp_time_t\<close> milliseconds, modelled as unbounded integers (the source's
  \<open>int64_t\<close> does not overflow on millisecond clocks). The clock \<open>rudp_timestamp()\<close> is
  read once per entry into the engine and passed down as \<open>now\<close>. The one-shot timer of
  the event loop is the pair \<open>scheduled\<close>/\<open>service_timeout\<close>: the delay last given to
  \<open>ela_set_timeout\<close>.
\<close>

abbreviation (input) ACTION_TIMEOUT :: int where "ACTION_TIMEOUT \<equiv> 5000"
abbreviation (input) DROP_TIMEOUT :: int where "DROP_TIMEOUT \<equiv> ACTION_TIMEOUT * 2"
abbreviation (input) MAX_RTO :: int where "MAX_RTO \<equiv> 3000"
abbreviation (input) EINVAL :: int where "EINVAL \<equiv> 22"

text \<open>A call that ends in a memory fault returns nothing. Its result in the model is the
  peer as the fault found it, the event \<open>Fault\<close>, and this number in the place of the
  error code, which no caller gets to read.\<close>

abbreviation (input) NO_RETURN :: int where "NO_RETURN \<equiv> - 1"

datatype peer_state = PEER_NEW | PEER_RUN | PEER_CONNECTING | PEER_DEAD

datatype packet_state = SEQUENCED | UNSEQUENCED | RETRANSMITTED

record rudp_peer =
  address :: sockaddr_storage
  abs_timeout_deadline :: int
  last_out_time :: int
  srtt :: int
  rttvar :: int
  rto :: int
  in_seq_reliable :: "16 word"
  in_seq_unreliable :: "16 word"
  out_seq_reliable :: "16 word"
  out_seq_unreliable :: "16 word"
  out_seq_acked :: "16 word"
  must_ack :: bool
  scheduled :: bool
  service_timeout :: int
  state :: peer_state
  sendq :: "rudp_packet_chain list"
  sendto_err :: int

text \<open>What the engine does to its surroundings: a call of one of the two peer handlers, a
  datagram handed to the endpoint, or a memory fault, after which nothing happens any
  more.\<close>

datatype peer_event =
  Dropped
  | Handle_packet rudp_packet_chain
  | Sendto rudp_packet_chain
  | Fault

subsection \<open>Inbound sequencing\<close>

definition peer_analyse_reliable :: "rudp_peer \<Rightarrow> 16 word \<Rightarrow> packet_state \<times> rudp_peer" where
  "peer_analyse_reliable peer reliable_seq =
     (if in_seq_reliable peer = reliable_seq then (RETRANSMITTED, peer)
      else if in_seq_reliable peer + 1 \<noteq> reliable_seq then (UNSEQUENCED, peer)
      else (SEQUENCED, peer\<lparr>in_seq_reliable := reliable_seq, in_seq_unreliable := 0\<rparr>))"

definition peer_analyse_unreliable ::
  "rudp_peer \<Rightarrow> 16 word \<Rightarrow> 16 word \<Rightarrow> packet_state \<times> rudp_peer" where
  "peer_analyse_unreliable peer reliable_seq unreliable_seq =
     (if in_seq_reliable peer \<noteq> reliable_seq then (UNSEQUENCED, peer)
      else
        (let unreliable_delta = sint (unreliable_seq - in_seq_unreliable peer)
         in if unreliable_delta \<le> 0 then (UNSEQUENCED, peer)
            else (SEQUENCED, peer\<lparr>in_seq_unreliable := unreliable_seq\<rparr>)))"

text \<open>The two-way branch on the RELIABLE flag in \<open>rudp_peer_incoming_packet\<close>.\<close>

definition peer_analyse :: "rudp_peer \<Rightarrow> rudp_packet_header \<Rightarrow> packet_state \<times> rudp_peer" where
  "peer_analyse peer h =
     (if has_opt h RUDP_OPT_RELIABLE then peer_analyse_reliable peer (reliable h)
      else peer_analyse_unreliable peer (reliable h) (unreliable h))"

subsection \<open>Acknowledgements\<close>

text \<open>The walk over the send queue in \<open>peer_handle_ack\<close>: the queue that is left.\<close>

fun ack_unqueue :: "16 word \<Rightarrow> rudp_packet_chain list \<Rightarrow> rudp_packet_chain list" where
  "ack_unqueue ack [] = []"
| "ack_unqueue ack (pc # rest) =
     (let seqno = reliable (header pc); delta = sint (seqno - ack)
      in if \<not> has_opt (header pc) RUDP_OPT_RELIABLE
            \<or> \<not> has_opt (header pc) RUDP_OPT_RETRANSMITTED then pc # rest
         else if delta > 0 then pc # rest
         else ack_unqueue ack rest)"

definition peer_handle_ack :: "rudp_peer \<Rightarrow> 16 word \<Rightarrow> int \<times> rudp_peer" where
  "peer_handle_ack peer ack =
     (let ack_delta = sint (ack - out_seq_acked peer);
          adv_delta = sint (ack - out_seq_reliable peer)
      in if ack_delta < 0 then (0, peer)
         else if adv_delta > 0 then (1, peer)
         else (0, peer\<lparr>out_seq_acked := ack, sendq := ack_unqueue ack (sendq peer)\<rparr>))"

subsection \<open>Timer\<close>

definition peer_service_schedule :: "int \<Rightarrow> rudp_peer \<Rightarrow> rudp_peer" where
  "peer_service_schedule now peer =
     (let delta = (case sendq peer of
                     [] \<Rightarrow> ACTION_TIMEOUT
                   | head # _ \<Rightarrow>
                       if has_opt (header head) RUDP_OPT_RETRANSMITTED
                       then now - last_out_time peer + rto peer
                       else 0);
          to_delta = abs_timeout_deadline peer - now;
          delta = (if to_delta < delta then to_delta else delta);
          delta = (if delta \<le> 0 then 1 else delta)
      in peer\<lparr>service_timeout := delta, scheduled := True\<rparr>)"

subsection \<open>Round-trip time\<close>

text \<open>C division truncates towards zero: \<open>sdiv\<close>.\<close>

definition peer_update_rtt :: "rudp_peer \<Rightarrow> int \<Rightarrow> rudp_peer" where
  "peer_update_rtt peer last_rtt =
     (let peer = peer\<lparr>rttvar := (3 * rttvar peer + \<bar>srtt peer - last_rtt\<bar>) sdiv 4\<rparr>;
          peer = peer\<lparr>srtt := (7 * srtt peer + last_rtt) sdiv 8\<rparr>;
          peer = peer\<lparr>rto := srtt peer\<rparr>
      in if rto peer > MAX_RTO then peer\<lparr>rto := MAX_RTO\<rparr> else peer)"

definition peer_rto_backoff :: "rudp_peer \<Rightarrow> rudp_peer" where
  "peer_rto_backoff peer =
     (let peer = peer\<lparr>rto := rto peer * 2\<rparr>
      in if rto peer > MAX_RTO then peer\<lparr>rto := MAX_RTO\<rparr> else peer)"

subsection \<open>Sender functions\<close>

text \<open>Both return \<open>peer->sendto_err\<close>, a field of the peer they return here.\<close>

definition rudp_peer_send_unreliable ::
  "int \<Rightarrow> rudp_peer \<Rightarrow> rudp_packet_chain \<Rightarrow> rudp_peer" where
  "rudp_peer_send_unreliable now peer pc =
     (let peer = peer\<lparr>out_seq_unreliable := out_seq_unreliable peer + 1\<rparr>;
          pc = pc\<lparr>header := (header pc)\<lparr>opt := 0,
                                          reliable := out_seq_reliable peer,
                                          unreliable := out_seq_unreliable peer\<rparr>\<rparr>
      in peer_service_schedule now (peer\<lparr>sendq := sendq peer @ [pc]\<rparr>))"

definition rudp_peer_send_reliable ::
  "int \<Rightarrow> rudp_peer \<Rightarrow> rudp_packet_chain \<Rightarrow> rudp_peer" where
  "rudp_peer_send_reliable now peer pc =
     (let peer = peer\<lparr>out_seq_reliable := out_seq_reliable peer + 1\<rparr>;
          pc = pc\<lparr>header := (header pc)\<lparr>opt := RUDP_OPT_RELIABLE,
                                          reliable := out_seq_reliable peer,
                                          unreliable := 0\<rparr>\<rparr>;
          peer = peer\<lparr>out_seq_unreliable := 0\<rparr>
      in peer_service_schedule now (peer\<lparr>sendq := sendq peer @ [pc]\<rparr>))"

text \<open>The endpoint is a parameter \<open>ep\<close>: the error \<open>rudp_endpoint_send\<close> returns for a
  datagram.\<close>

definition peer_send_raw ::
  "(rudp_packet_chain \<Rightarrow> int) \<Rightarrow> int \<Rightarrow> rudp_peer \<Rightarrow> rudp_packet_chain \<Rightarrow> rudp_peer" where
  "peer_send_raw ep now peer pc = peer\<lparr>sendto_err := ep pc, last_out_time := now\<rparr>"

definition rudp_peer_send_connect :: "int \<Rightarrow> rudp_peer \<Rightarrow> rudp_peer" where
  "rudp_peer_send_connect now peer =
     (let pc = \<lparr>header = header0\<lparr>command := RUDP_CMD_CONN_REQ\<rparr>, data = [0, 0, 0, 0],
                len = sizeof_conn_req\<rparr>
      in rudp_peer_send_reliable now (peer\<lparr>state := PEER_CONNECTING\<rparr>) pc)"

definition rudp_peer_send_close_noqueue ::
  "(rudp_packet_chain \<Rightarrow> int) \<Rightarrow> int \<Rightarrow> rudp_peer \<Rightarrow> rudp_peer \<times> peer_event list" where
  "rudp_peer_send_close_noqueue ep now peer =
     (let peer = peer\<lparr>out_seq_unreliable := out_seq_unreliable peer + 1\<rparr>;
          pc = \<lparr>header = \<lparr>command = RUDP_CMD_CLOSE, opt = 0, reliable_ack = 0,
                           reliable = out_seq_reliable peer,
                           unreliable = out_seq_unreliable peer\<rparr>,
                data = [], len = sizeof_header\<rparr>
      in (peer_send_raw ep now peer pc, [Sendto pc]))"

subsection \<open>Ping and pong\<close>

text \<open>The payload of a PING is the sender's clock, copied as the 8 bytes of an
  \<open>int64_t\<close> (least significant byte first). A PONG shorter than that reads the bytes
  it lacks as 0.\<close>

definition time_bytes :: "int \<Rightarrow> 8 word list" where
  "time_bytes t = map (\<lambda>i. ucast (drop_bit (8 * i) (word_of_int t :: 64 word))) [0..<8]"

definition bytes_time :: "8 word list \<Rightarrow> int" where
  "bytes_time bs = sint (word_of_int (horner_sum uint 256 (take 8 bs)) :: 64 word)"

definition peer_ping :: "int \<Rightarrow> rudp_peer \<Rightarrow> rudp_peer" where
  "peer_ping now peer =
     rudp_peer_send_reliable now peer
       \<lparr>header = header0\<lparr>command := RUDP_CMD_PING\<rparr>, data = time_bytes now,
        len = sizeof_header + sizeof_rudp_time\<rparr>"

text \<open>
  \<open>peer_handle_ping\<close> allocates a chain of \<open>in->len\<close> bytes and copies
  \<open>in->len - sizeof(struct rudp_packet_header)\<close> bytes of payload into it. The
  subtraction is in \<open>size_t\<close>: for a PING shorter than its header it wraps around, and
  the copy runs far beyond both buffers. That is a memory fault and the end of the process:
  the result is \<open>None\<close>, and no PONG is queued.
\<close>

definition peer_handle_ping ::
  "int \<Rightarrow> rudp_peer \<Rightarrow> rudp_packet_chain \<Rightarrow> rudp_peer option" where
  "peer_handle_ping now peer inp =
     (if has_opt (header inp) RUDP_OPT_RETRANSMITTED then Some peer
      else
        (let n = size_sub (len inp) sizeof_header
         in if alloc_size (len inp) - sizeof_header < n then None
            else Some (rudp_peer_send_unreliable now peer
                   \<lparr>header = header0\<lparr>command := RUDP_CMD_PONG, opt := 0\<rparr>,
                    data = take n (data inp), len = len inp\<rparr>)))"

definition peer_handle_pong :: "int \<Rightarrow> rudp_peer \<Rightarrow> rudp_packet_chain \<Rightarrow> rudp_peer" where
  "peer_handle_pong now peer pc =
     (let orig = bytes_time (data pc); delta = now - orig
      in peer_update_rtt peer delta)"

subsection \<open>Handshake and ack posting\<close>

definition peer_handle_connreq :: "int \<Rightarrow> rudp_peer \<Rightarrow> rudp_peer" where
  "peer_handle_connreq now peer =
     (let pc = \<lparr>header = header0\<lparr>command := RUDP_CMD_CONN_RSP, opt := 0\<rparr>,
                data = [0, 0, 0, 1], len = sizeof_conn_req\<rparr>
      in peer_service_schedule now (rudp_peer_send_unreliable now peer pc))"

definition peer_post_ack :: "int \<Rightarrow> rudp_peer \<Rightarrow> rudp_peer" where
  "peer_post_ack now peer =
     (let peer = peer\<lparr>must_ack := True\<rparr>
      in if sendq peer \<noteq> [] then peer
         else
           (let pc = \<lparr>header = header0\<lparr>command := RUDP_CMD_NOOP\<rparr>, data = [0, 0, 0, 0],
                      len = sizeof_conn_req\<rparr>
            in peer_service_schedule now (rudp_peer_send_unreliable now peer pc)))"

subsection \<open>Incoming packets\<close>

text \<open>The tail of \<open>rudp_peer_incoming_packet\<close> that every path but CLOSE and a broken
  ack reaches: post the ack of a reliable packet, reschedule, return 0.\<close>

definition incoming_finish ::
  "int \<Rightarrow> rudp_packet_header \<Rightarrow> rudp_peer \<Rightarrow> peer_event list
     \<Rightarrow> int \<times> rudp_peer \<times> peer_event list" where
  "incoming_finish now h peer evs =
     (let peer = (if has_opt h RUDP_OPT_RELIABLE then peer_post_ack now peer else peer)
      in (0, peer_service_schedule now peer, evs))"

text \<open>The part of \<open>rudp_peer_incoming_packet\<close> after the ACK flag has been dealt with:
  classification and the \<open>switch\<close> over it.\<close>

definition incoming_dispatch ::
  "int \<Rightarrow> rudp_peer \<Rightarrow> rudp_packet_chain \<Rightarrow> int \<times> rudp_peer \<times> peer_event list" where
  "incoming_dispatch now peer0 pc =
     (let h = header pc; (st, peer) = peer_analyse peer0 h
      in case st of
           UNSEQUENCED \<Rightarrow>
             if state peer = PEER_NEW \<and> command h = RUDP_CMD_CONN_REQ then
               (let peer = peer_handle_connreq now peer;
                    peer = peer\<lparr>in_seq_reliable := reliable h\<rparr>;
                    peer = peer\<lparr>state := PEER_RUN\<rparr>
                in incoming_finish now h peer [])
             else if state peer = PEER_CONNECTING \<and> command h = RUDP_CMD_CONN_RSP then
               (let peer = peer\<lparr>in_seq_reliable := reliable h\<rparr>;
                    peer = snd (peer_handle_ack peer (reliable_ack h));
                    peer = peer\<lparr>state := PEER_RUN\<rparr>
                in incoming_finish now h peer [])
             else incoming_finish now h peer []
         | RETRANSMITTED \<Rightarrow>
             incoming_finish now h (peer\<lparr>abs_timeout_deadline := now + DROP_TIMEOUT\<rparr>) []
         | SEQUENCED \<Rightarrow>
             (let peer = peer\<lparr>abs_timeout_deadline := now + DROP_TIMEOUT\<rparr>
              in if command h = RUDP_CMD_CLOSE then
                   (0, peer\<lparr>state := PEER_DEAD\<rparr>, [Dropped])
                 else if command h = RUDP_CMD_PING then
                   (if state peer = PEER_RUN then
                      (case peer_handle_ping now peer pc of
                         None \<Rightarrow> (NO_RETURN, peer, [Fault])
                       | Some peer' \<Rightarrow> incoming_finish now h peer' [])
                    else incoming_finish now h peer [])
                 else if command h = RUDP_CMD_PONG then
                   incoming_finish now h
                     (if state peer = PEER_RUN then peer_handle_pong now peer pc else peer) []
                 else if command h = RUDP_CMD_NOOP \<or> command h = RUDP_CMD_CONN_REQ
                         \<or> command h = RUDP_CMD_CONN_RSP then
                   incoming_finish now h peer []
                 else if state peer \<noteq> PEER_RUN then incoming_finish now h peer []
                 else if command h \<ge> RUDP_CMD_APP then
                   incoming_finish now h peer [Handle_packet pc]
                 else incoming_finish now h peer []))"

definition rudp_peer_incoming_packet ::
  "int \<Rightarrow> rudp_peer \<Rightarrow> rudp_packet_chain \<Rightarrow> int \<times> rudp_peer \<times> peer_event list" where
  "rudp_peer_incoming_packet now peer pc =
     (if has_opt (header pc) RUDP_OPT_ACK then
        (case peer_handle_ack peer (reliable_ack (header pc)) of
           (broken, peer') \<Rightarrow>
             if broken \<noteq> 0 then (EINVAL, peer, [])
             else incoming_dispatch now peer' pc)
      else incoming_dispatch now peer pc)"

subsection \<open>Service\<close>

text \<open>The walk of \<open>peer_send_queue\<close> over the queue: the peer, the queue that is left and
  the datagrams sent, in order.\<close>

fun send_queue_walk ::
  "(rudp_packet_chain \<Rightarrow> int) \<Rightarrow> int \<Rightarrow> rudp_peer \<Rightarrow> rudp_packet_chain list
     \<Rightarrow> rudp_peer \<times> rudp_packet_chain list \<times> peer_event list" where
  "send_queue_walk ep now peer [] = (peer, [], [])"
| "send_queue_walk ep now peer (pc # rest) =
     (let h = (if must_ack peer
               then (header pc)\<lparr>opt := opt (header pc) OR RUDP_OPT_ACK,
                                reliable_ack := in_seq_reliable peer\<rparr>
               else (header pc)\<lparr>reliable_ack := 0\<rparr>);
          pc = pc\<lparr>header := h\<rparr>;
          peer = peer_send_raw ep now peer pc
      in if has_opt h RUDP_OPT_RELIABLE \<and> has_opt h RUDP_OPT_RETRANSMITTED then
           (peer_rto_backoff peer, pc # rest, [Sendto pc])
         else if has_opt h RUDP_OPT_RELIABLE then
           (case send_queue_walk ep now peer rest of
              (peer', q, evs) \<Rightarrow>
                (peer', pc\<lparr>header := h\<lparr>opt := opt h OR RUDP_OPT_RETRANSMITTED\<rparr>\<rparr> # q,
                 Sendto pc # evs))
         else
           (case send_queue_walk ep now peer rest of
              (peer', q, evs) \<Rightarrow> (peer', q, Sendto pc # evs)))"

definition peer_send_queue ::
  "(rudp_packet_chain \<Rightarrow> int) \<Rightarrow> int \<Rightarrow> rudp_peer \<Rightarrow> rudp_peer \<times> peer_event list" where
  "peer_send_queue ep now peer =
     (case send_queue_walk ep now peer (sendq peer) of
        (peer', q, evs) \<Rightarrow> (peer'\<lparr>sendq := q\<rparr>, evs))"

definition peer_service ::
  "(rudp_packet_chain \<Rightarrow> int) \<Rightarrow> int \<Rightarrow> rudp_peer \<Rightarrow> rudp_peer \<times> peer_event list" where
  "peer_service ep now peer0 =
     (let peer = peer0\<lparr>scheduled := False\<rparr>
      in if abs_timeout_deadline peer < now then (peer, [Dropped])
         else
           (let peer = (if sendq peer = [] then
                          (let out_delta = now - last_out_time peer
                           in if out_delta > ACTION_TIMEOUT then peer_ping now peer else peer)
                        else peer)
            in case peer_send_queue ep now peer of
                 (peer', evs) \<Rightarrow> (peer_service_schedule now peer', evs)))"

subsection \<open>Object management\<close>

text \<open>\<open>rnd\<close> is the value \<open>rudp_random\<close> returns.\<close>

definition rudp_peer_reset :: "int \<Rightarrow> 16 word \<Rightarrow> rudp_peer \<Rightarrow> rudp_peer" where
  "rudp_peer_reset now rnd peer =
     peer\<lparr>sendq := [],
          scheduled := False,
          abs_timeout_deadline := now + DROP_TIMEOUT,
          in_seq_reliable := - 1,
          in_seq_unreliable := 0,
          out_seq_reliable := rnd,
          out_seq_unreliable := 0,
          out_seq_acked := rnd - 1,
          state := PEER_NEW,
          last_out_time := now,
          srtt := 100,
          rttvar := 100 sdiv 2,
          rto := MAX_RTO,
          must_ack := False,
          sendto_err := 0\<rparr>"

definition rudp_peer_init :: "int \<Rightarrow> 16 word \<Rightarrow> rudp_peer" where
  "rudp_peer_init now rnd =
     peer_service_schedule now
       (rudp_peer_reset now rnd
          \<lparr>address = sockaddr0, abs_timeout_deadline = 0, last_out_time = 0,
           srtt = 0, rttvar = 0, rto = 0,
           in_seq_reliable = 0, in_seq_unreliable = 0,
           out_seq_reliable = 0, out_seq_unreliable = 0, out_seq_acked = 0,
           must_ack = False, scheduled = False, service_timeout = 0,
           state = PEER_NEW, sendq = [], sendto_err = 0\<rparr>)"

definition rudp_peer_from_sockaddr :: "int \<Rightarrow> 16 word \<Rightarrow> sockaddr_storage \<Rightarrow> rudp_peer" where
  "rudp_peer_from_sockaddr now rnd addr =
     (let peer = rudp_peer_init now rnd
      in peer\<lparr>address := rudp_address_set (address peer) addr\<rparr>)"

definition rudp_peer_deinit :: "int \<Rightarrow> 16 word \<Rightarrow> rudp_peer \<Rightarrow> rudp_peer" where
  "rudp_peer_deinit now rnd peer = (rudp_peer_reset now rnd peer)\<lparr>address := sockaddr0\<rparr>"

definition rudp_peer_address_compare :: "rudp_peer \<Rightarrow> sockaddr_storage \<Rightarrow> int" where
  "rudp_peer_address_compare peer addr = rudp_address_compare (address peer) addr"

section \<open>Client shell (client.c)\<close>

text \<open>The client holds one peer and the \<open>connected\<close> flag. Calls of the application's
  handlers are recorded in order. \<open>sizeof(header)\<close> in \<open>client_handle_data_packet\<close> is the
  size of a pointer, 8 on the 64-bit targets modelled here, and the length handed to the
  application is computed in \<open>size_t\<close>. A memory fault in the engine ends everything:
  it is recorded and no handler runs after it.\<close>

record rudp_client =
  client_peer :: rudp_peer
  connected :: bool
  socket_open :: bool

datatype client_event =
  Connected
  | Server_lost
  | Client_handle_packet int "8 word list" int
  | Client_fault

definition client_peer_dropped ::
  "int \<Rightarrow> 16 word \<Rightarrow> rudp_client \<Rightarrow> rudp_client \<times> client_event list" where
  "client_peer_dropped now rnd client =
     (client\<lparr>connected := False,
             client_peer := rudp_peer_deinit now rnd (client_peer client),
             socket_open := False\<rparr>,
      [Server_lost])"

definition client_handle_data_packet :: "rudp_packet_chain \<Rightarrow> client_event list" where
  "client_handle_data_packet pc =
     [Client_handle_packet (uint (command (header pc)) - uint RUDP_CMD_APP) (data pc)
        (int (size_sub (len pc) 8))]"

text \<open>The peer handler table of the client, run on what the engine called.\<close>

fun client_peer_handler ::
  "int \<Rightarrow> 16 word \<Rightarrow> rudp_client \<Rightarrow> peer_event list \<Rightarrow> rudp_client \<times> client_event list" where
  "client_peer_handler now rnd client [] = (client, [])"
| "client_peer_handler now rnd client (Dropped # evs) =
     (case client_peer_dropped now rnd client of
        (client', out) \<Rightarrow>
          (case client_peer_handler now rnd client' evs of
             (client'', out') \<Rightarrow> (client'', out @ out')))"
| "client_peer_handler now rnd client (Handle_packet pc # evs) =
     (case client_peer_handler now rnd client evs of
        (client', out') \<Rightarrow> (client', client_handle_data_packet pc @ out'))"
| "client_peer_handler now rnd client (Sendto pc # evs) = client_peer_handler now rnd client evs"
| "client_peer_handler now rnd client (Fault # evs) = (client, [Client_fault])"

definition client_handle_endpoint_packet ::
  "int \<Rightarrow> 16 word \<Rightarrow> rudp_client \<Rightarrow> rudp_packet_chain \<Rightarrow> rudp_client \<times> client_event list" where
  "client_handle_endpoint_packet now rnd client pc =
     (case rudp_peer_incoming_packet now (client_peer client) pc of
        (err, peer', evs) \<Rightarrow>
          (case client_peer_handler now rnd (client\<lparr>client_peer := peer'\<rparr>) evs of
             (client', out) \<Rightarrow>
               if Fault \<in> set evs then (client', out)
               else if err = 0 \<and> \<not> connected client'
               then (client'\<lparr>connected := True\<rparr>, out @ [Connected])
               else (client', out)))"

text \<open>\<open>rudp_client_init\<close> and the engine's part of \<open>rudp_client_connect\<close> (address
  resolution and the bind of the socket are taken to succeed).\<close>

definition rudp_client_init :: "int \<Rightarrow> 16 word \<Rightarrow> rudp_client" where
  "rudp_client_init now rnd =
     \<lparr>client_peer = rudp_peer_init now rnd, connected = False, socket_open = False\<rparr>"

definition rudp_client_connect ::
  "int \<Rightarrow> 16 word \<Rightarrow> sockaddr_storage \<Rightarrow> rudp_client \<Rightarrow> rudp_client" where
  "rudp_client_connect now rnd addr client =
     client\<lparr>client_peer := rudp_peer_send_connect now (rudp_peer_from_sockaddr now rnd addr),
            socket_open := True\<rparr>"

section \<open>Server demultiplexer (server.c)\<close>

text \<open>The peer list, head first. A peer that is forgotten leaves the list: that is its
  removal, its deinit and its release together. Peers are named in the recorded handler
  calls by their address. As in the client, a memory fault in the engine is recorded and
  nothing runs after it.\<close>

record rudp_server =
  peer_list :: "rudp_peer list"

datatype server_event =
  Peer_new sockaddr_storage
  | Peer_dropped sockaddr_storage
  | Server_handle_packet sockaddr_storage int "8 word list" int
  | Server_fault

text \<open>\<open>rudp_server_peer_lookup\<close>: the position of the first peer whose address matches.\<close>

fun peer_lookup :: "rudp_peer list \<Rightarrow> sockaddr_storage \<Rightarrow> nat option" where
  "peer_lookup [] addr = None"
| "peer_lookup (p # ps) addr =
     (if rudp_peer_address_compare p addr = 0 then Some 0
      else map_option Suc (peer_lookup ps addr))"

definition rudp_server_peer_lookup :: "rudp_server \<Rightarrow> sockaddr_storage \<Rightarrow> nat option" where
  "rudp_server_peer_lookup server addr = peer_lookup (peer_list server) addr"

definition server_peer_forget :: "rudp_server \<Rightarrow> nat \<Rightarrow> rudp_server" where
  "server_peer_forget server i =
     server\<lparr>peer_list := take i (peer_list server) @ drop (Suc i) (peer_list server)\<rparr>"

text \<open>\<open>server_peer_new\<close>: \<open>alloc_ok\<close> tells whether \<open>rudp_alloc\<close> returned a buffer. The
  new peer is inserted at the head of the list.\<close>

definition server_peer_new ::
  "bool \<Rightarrow> int \<Rightarrow> 16 word \<Rightarrow> rudp_server \<Rightarrow> sockaddr_storage \<Rightarrow> rudp_server option" where
  "server_peer_new alloc_ok now rnd server addr =
     (if \<not> alloc_ok then None
      else Some (server\<lparr>peer_list := rudp_peer_from_sockaddr now rnd addr # peer_list server\<rparr>))"

definition server_handle_data_packet ::
  "rudp_peer \<Rightarrow> rudp_packet_chain \<Rightarrow> server_event list" where
  "server_handle_data_packet peer pc =
     [Server_handle_packet (address peer)
        (uint (command (header pc)) - uint RUDP_CMD_APP) (data pc) (int (size_sub (len pc) 8))]"

definition server_peer_dropped :: "rudp_server \<Rightarrow> nat \<Rightarrow> rudp_server \<times> server_event list" where
  "server_peer_dropped server i =
     (server_peer_forget server i, [Peer_dropped (address (peer_list server ! i))])"

text \<open>The peer handler table of the server, run on what the engine called for the peer at
  position \<open>i\<close>. The engine calls \<open>dropped\<close> last, and the peer is gone after it.\<close>

fun server_peer_handler ::
  "rudp_server \<Rightarrow> nat \<Rightarrow> peer_event list \<Rightarrow> rudp_server \<times> server_event list" where
  "server_peer_handler server i [] = (server, [])"
| "server_peer_handler server i (Dropped # evs) = server_peer_dropped server i"
| "server_peer_handler server i (Handle_packet pc # evs) =
     (case server_peer_handler server i evs of
        (server', out) \<Rightarrow>
          (server', server_handle_data_packet (peer_list server ! i) pc @ out))"
| "server_peer_handler server i (Sendto pc # evs) = server_peer_handler server i evs"
| "server_peer_handler server i (Fault # evs) = (server, [Server_fault])"

definition server_handle_endpoint_packet ::
  "bool \<Rightarrow> int \<Rightarrow> 16 word \<Rightarrow> rudp_server \<Rightarrow> sockaddr_storage \<Rightarrow> rudp_packet_chain
     \<Rightarrow> rudp_server \<times> server_event list" where
  "server_handle_endpoint_packet alloc_ok now rnd server addr pc =
     (case rudp_server_peer_lookup server addr of
        Some i \<Rightarrow>
          (case rudp_peer_incoming_packet now (peer_list server ! i) pc of
             (err, peer', evs) \<Rightarrow>
               server_peer_handler (server\<lparr>peer_list := (peer_list server)[i := peer']\<rparr>) i evs)
      | None \<Rightarrow>
          if len pc \<noteq> sizeof_conn_req \<or> command (header pc) \<noteq> RUDP_CMD_CONN_REQ
          then (server, [])
          else
            (case server_peer_new alloc_ok now rnd server addr of
               None \<Rightarrow> (server, [])
             | Some server1 \<Rightarrow>
                 (case rudp_peer_incoming_packet now (hd (peer_list server1)) pc of
                    (err, peer', evs) \<Rightarrow>
                      (case server_peer_handler
                              (server1\<lparr>peer_list := peer' # tl (peer_list server1)\<rparr>) 0 evs of
                         (server2, out) \<Rightarrow>
                           if Fault \<in> set evs then (server2, out)
                           else if err = 0 then (server2, out @ [Peer_new (address peer')])
                           else (server_peer_forget server2 0, out)))))"

section \<open>Vocabulary of the properties and sample inputs\<close>

text \<open>An entry of the send queue that an acknowledgement of \<open>ack\<close> covers: reliable, already
  transmitted, and with a sequence number not after \<open>ack\<close>.\<close>

definition acked_entry :: "16 word \<Rightarrow> rudp_packet_chain \<Rightarrow> bool" where
  "acked_entry ack pc =
     (has_opt (header pc) RUDP_OPT_RELIABLE \<and> has_opt (header pc) RUDP_OPT_RETRANSMITTED
      \<and> sint (reliable (header pc) - ack) \<le> 0)"

text \<open>Sample headers and queue entries.\<close>

definition unrel_hdr :: "16 word \<Rightarrow> 16 word \<Rightarrow> rudp_packet_header" where
  "unrel_hdr r u = header0\<lparr>command := RUDP_CMD_APP, reliable := r, unreliable := u\<rparr>"

definition qent :: "8 word \<Rightarrow> 16 word \<Rightarrow> rudp_packet_chain" where
  "qent flags seq =
     \<lparr>header = header0\<lparr>command := RUDP_CMD_APP, opt := flags, reliable := seq\<rparr>,
      data = [], len = 8\<rparr>"

definition ack_hdr :: "8 word \<Rightarrow> 8 word \<Rightarrow> 16 word \<Rightarrow> 16 word \<Rightarrow> rudp_packet_header" where
  "ack_hdr cmd flags ack seq =
     \<lparr>command = cmd, opt = flags, reliable_ack = ack, reliable = seq, unreliable = 0\<rparr>"

definition ping_pc :: "8 word \<Rightarrow> 16 word \<Rightarrow> rudp_packet_chain" where
  "ping_pc flags seq =
     \<lparr>header = \<lparr>command = RUDP_CMD_PING, opt = flags, reliable_ack = 0, reliable = seq,
                 unreliable = 0\<rparr>,
      data = [1, 2, 3, 4, 5, 6, 7, 8], len = 16\<rparr>"

text \<open>A reliable PING of 6 bytes: command, flags, ack and sequence number, and no more.\<close>

definition short_ping :: rudp_packet_chain where
  "short_ping =
     \<lparr>header = \<lparr>command = RUDP_CMD_PING, opt = RUDP_OPT_RELIABLE, reliable_ack = 0,
                 reliable = 0, unreliable = 0\<rparr>,
      data = [], len = 6\<rparr>"

definition run_peer :: rudp_peer where
  "run_peer = (rudp_peer_init 1000 10)\<lparr>state := PEER_RUN\<rparr>"

text \<open>The peer as classification finds it: after the ACK flag of the header has been
  processed, or nothing when \<open>rudp_peer_incoming_packet\<close> gives the packet up there.\<close>

definition peer_acked :: "rudp_peer \<Rightarrow> rudp_packet_header \<Rightarrow> rudp_peer option" where
  "peer_acked peer h =
     (if has_opt h RUDP_OPT_ACK then
        (case peer_handle_ack peer (reliable_ack h) of
           (broken, peer') \<Rightarrow> if broken \<noteq> 0 then None else Some peer')
      else Some peer)"

text \<open>The unreliable NOOP that carries an ack, as a peer in the given condition queues
  it.\<close>

definition noop_of :: "rudp_peer \<Rightarrow> rudp_packet_chain" where
  "noop_of peer =
     \<lparr>header = \<lparr>command = RUDP_CMD_NOOP, opt = 0, reliable_ack = 0,
                 reliable = out_seq_reliable peer,
                 unreliable = out_seq_unreliable peer + 1\<rparr>,
      data = [0, 0, 0, 0], len = 12\<rparr>"

definition rel_pc :: "8 word \<Rightarrow> 16 word \<Rightarrow> rudp_packet_chain" where
  "rel_pc cmd seq = \<lparr>header = ack_hdr cmd RUDP_OPT_RELIABLE 0 seq, data = [], len = 8\<rparr>"

text \<open>A client that has just called \<open>rudp_client_connect\<close>, two datagrams for it, and a
  server with one peer.\<close>

definition server_addr :: sockaddr_storage where
  "server_addr = \<lparr>ss_family = AF_INET, sin_port = 4242, sin_addr = 0x7F000001, sin6_addr = 0\<rparr>"

definition connecting_client :: rudp_client where
  "connecting_client = rudp_client_connect 1000 10 server_addr (rudp_client_init 900 3)"

definition close_pc :: rudp_packet_chain where
  "close_pc = \<lparr>header = header0\<lparr>command := RUDP_CMD_CLOSE, reliable := 0xFFFF, unreliable := 1\<rparr>,
              data = [], len = 8\<rparr>"

definition stray_noop :: rudp_packet_chain where
  "stray_noop =
     \<lparr>header = header0\<lparr>command := RUDP_CMD_NOOP, reliable := 5\<rparr>, data = [], len = 8\<rparr>"

definition addr_a :: sockaddr_storage where
  "addr_a = \<lparr>ss_family = AF_INET, sin_port = 5000, sin_addr = 0x0A000001, sin6_addr = 0\<rparr>"

definition addr_b :: sockaddr_storage where
  "addr_b = \<lparr>ss_family = AF_INET, sin_port = 5001, sin_addr = 0x0A000001, sin6_addr = 0\<rparr>"

definition busy_server :: rudp_server where
  "busy_server = \<lparr>peer_list = [run_peer\<lparr>address := addr_a\<rparr>]\<rparr>"

definition conn_req_pc :: "8 word \<Rightarrow> 16 word \<Rightarrow> 16 word \<Rightarrow> rudp_packet_chain" where
  "conn_req_pc flags ack seq =
     \<lparr>header = ack_hdr RUDP_CMD_CONN_REQ flags ack seq, data = [0, 0, 0, 0], len = 12\<rparr>"

definition rel0_pc :: rudp_packet_chain where
  "rel0_pc =
     \<lparr>header = header0\<lparr>command := RUDP_CMD_APP, opt := 1, reliable := 0\<rparr>, data = [],
      len = 8\<rparr>"

definition unrel_pc :: "16 word \<Rightarrow> 16 word \<Rightarrow> rudp_packet_chain" where
  "unrel_pc r u = \<lparr>header = unrel_hdr r u, data = [], len = 8\<rparr>"

section \<open>Auxiliary facts\<close>

lemma ack_unqueue_dropWhile: "ack_unqueue ack q = dropWhile (acked_entry ack) q"
  by (induction q) (auto simp: acked_entry_def Let_def)

lemma peer_init_simps:
  "rudp_peer_init now rnd =
     \<lparr>address = sockaddr0, abs_timeout_deadline = now + 10000, last_out_time = now,
      srtt = 100, rttvar = 50, rto = 3000,
      in_seq_reliable = 0xFFFF, in_seq_unreliable = 0,
      out_seq_reliable = rnd, out_seq_unreliable = 0, out_seq_acked = rnd - 1,
      must_ack = False, scheduled = True, service_timeout = 5000,
      state = PEER_NEW, sendq = [], sendto_err = 0\<rparr>"
  by (simp add: rudp_peer_init_def rudp_peer_reset_def peer_service_schedule_def Let_def)

lemma incoming_packet_acked:
  "rudp_peer_incoming_packet now peer pc =
     (case peer_acked peer (header pc) of
        None \<Rightarrow> (EINVAL, peer, [])
      | Some peer1 \<Rightarrow> incoming_dispatch now peer1 pc)"
  by (simp add: rudp_peer_incoming_packet_def peer_acked_def split: prod.splits)

lemma analyse_state [simp]: "state (snd (peer_analyse peer h)) = state peer"
  by (simp add: peer_analyse_def peer_analyse_reliable_def peer_analyse_unreliable_def Let_def)

lemma analyse_sendq [simp]: "sendq (snd (peer_analyse peer h)) = sendq peer"
  by (simp add: peer_analyse_def peer_analyse_reliable_def peer_analyse_unreliable_def Let_def)

lemma analyse_out [simp]:
  "out_seq_reliable (snd (peer_analyse peer h)) = out_seq_reliable peer"
  "out_seq_unreliable (snd (peer_analyse peer h)) = out_seq_unreliable peer"
  "must_ack (snd (peer_analyse peer h)) = must_ack peer"
  by (simp_all add: peer_analyse_def peer_analyse_reliable_def peer_analyse_unreliable_def Let_def)

lemma schedule_fields [simp]:
  "sendq (peer_service_schedule now peer) = sendq peer"
  "must_ack (peer_service_schedule now peer) = must_ack peer"
  "state (peer_service_schedule now peer) = state peer"
  "out_seq_reliable (peer_service_schedule now peer) = out_seq_reliable peer"
  "out_seq_unreliable (peer_service_schedule now peer) = out_seq_unreliable peer"
  by (simp_all add: peer_service_schedule_def Let_def)

lemma send_unreliable_fields [simp]:
  "sendq (rudp_peer_send_unreliable now peer pc)
     = sendq peer @ [pc\<lparr>header := (header pc)\<lparr>opt := 0, reliable := out_seq_reliable peer,
                                               unreliable := out_seq_unreliable peer + 1\<rparr>\<rparr>]"
  "must_ack (rudp_peer_send_unreliable now peer pc) = must_ack peer"
  "state (rudp_peer_send_unreliable now peer pc) = state peer"
  by (simp_all add: rudp_peer_send_unreliable_def Let_def)

lemma post_ack_fields:
  "must_ack (peer_post_ack now peer)"
  "sendq (peer_post_ack now peer) = (if sendq peer = [] then [noop_of peer] else sendq peer)"
  "state (peer_post_ack now peer) = state peer"
  by (simp_all add: peer_post_ack_def noop_of_def header0_def Let_def)

lemma finish_fields:
  "fst (incoming_finish now h peer evs) = 0"
  "snd (snd (incoming_finish now h peer evs)) = evs"
  "must_ack (fst (snd (incoming_finish now h peer evs)))
     = (has_opt h RUDP_OPT_RELIABLE \<or> must_ack peer)"
  "sendq (fst (snd (incoming_finish now h peer evs)))
     = (if has_opt h RUDP_OPT_RELIABLE \<and> sendq peer = [] then [noop_of peer] else sendq peer)"
  "state (fst (snd (incoming_finish now h peer evs))) = state peer"
  by (simp_all add: incoming_finish_def post_ack_fields Let_def)

lemma run_peer_simps:
  "run_peer =
     \<lparr>address = sockaddr0, abs_timeout_deadline = 11000, last_out_time = 1000,
      srtt = 100, rttvar = 50, rto = 3000,
      in_seq_reliable = 0xFFFF, in_seq_unreliable = 0,
      out_seq_reliable = 10, out_seq_unreliable = 0, out_seq_acked = 9,
      must_ack = False, scheduled = True, service_timeout = 5000,
      state = PEER_RUN, sendq = [], sendto_err = 0\<rparr>"
  by (simp add: run_peer_def peer_init_simps)

lemma handle_ack_fields [simp]:
  "must_ack (snd (peer_handle_ack peer ack)) = must_ack peer"
  "state (snd (peer_handle_ack peer ack)) = state peer"
  by (simp_all add: peer_handle_ack_def Let_def)

lemma dispatch_close:
  assumes "peer_analyse peer1 (header pc) = (SEQUENCED, peer2)"
    and "command (header pc) = RUDP_CMD_CLOSE"
  shows "incoming_dispatch now peer1 pc
           = (0, peer2\<lparr>abs_timeout_deadline := now + DROP_TIMEOUT, state := PEER_DEAD\<rparr>, [Dropped])"
  using assms by (simp add: incoming_dispatch_def Let_def)

lemma size_sub_header:
  "sizeof_header \<le> n \<Longrightarrow> size_sub n sizeof_header \<le> n - sizeof_header"
  "n < sizeof_header \<Longrightarrow> size_sub n sizeof_header = 2 ^ 64 - (sizeof_header - n)"
proof -
  show "size_sub n sizeof_header \<le> n - sizeof_header" if "sizeof_header \<le> n"
  proof -
    have "(int n - 8) mod 2 ^ 64 \<le> int n - 8"
      using that by (intro zmod_le_nonneg_dividend) simp
    then show ?thesis using that by (simp add: size_sub_def)
  qed
  show "size_sub n sizeof_header = 2 ^ 64 - (sizeof_header - n)" if "n < sizeof_header"
  proof -
    have "(int n - 8) mod 2 ^ 64 = (int n - 8 + 2 ^ 64) mod 2 ^ 64"
      by (metis mod_add_self2)
    also have "\<dots> = int n - 8 + 2 ^ 64"
      using that by (intro mod_pos_pos_trivial) simp_all
    finally show ?thesis by (simp add: size_sub_def)
  qed
qed

lemma alloc_size_ge: "n \<le> alloc_size n" "RUDP_RECV_BUFFER_SIZE \<le> alloc_size n"
  by (simp_all add: alloc_size_def)

lemma ping_returns:
  assumes "sizeof_header \<le> len pc"
  shows "peer_handle_ping now peer pc =
           Some (if has_opt (header pc) RUDP_OPT_RETRANSMITTED then peer
                 else rudp_peer_send_unreliable now peer
                        \<lparr>header = header0\<lparr>command := RUDP_CMD_PONG, opt := 0\<rparr>,
                         data = take (size_sub (len pc) sizeof_header) (data pc),
                         len = len pc\<rparr>)"
proof -
  have "size_sub (len pc) sizeof_header \<le> alloc_size (len pc) - sizeof_header"
    using size_sub_header(1) [OF assms] alloc_size_ge(1) [of "len pc"] by linarith
  then show ?thesis by (simp add: peer_handle_ping_def Let_def)
qed

lemma ping_faults:
  assumes "len pc < sizeof_header" and "\<not> has_opt (header pc) RUDP_OPT_RETRANSMITTED"
  shows "peer_handle_ping now peer pc = None"
proof -
  have "alloc_size (len pc) = RUDP_RECV_BUFFER_SIZE"
    using assms(1) by (simp add: alloc_size_def)
  then show ?thesis
    using assms size_sub_header(2) [OF assms(1)] by (simp add: peer_handle_ping_def Let_def)
qed

lemma ping_faults_iff:
  "peer_handle_ping now peer pc = None
     \<longleftrightarrow> \<not> has_opt (header pc) RUDP_OPT_RETRANSMITTED \<and> len pc < sizeof_header"
proof (cases "len pc < sizeof_header")
  case True
  show ?thesis
  proof (cases "has_opt (header pc) RUDP_OPT_RETRANSMITTED")
    case retr: True
    then show ?thesis by (simp add: peer_handle_ping_def)
  next
    case fresh: False
    from ping_faults [OF True fresh] True fresh show ?thesis by simp
  qed
next
  case False
  then have long: "sizeof_header \<le> len pc" by simp
  show ?thesis using False by (simp add: ping_returns [OF long])
qed

lemma dispatch_finish:
  assumes "\<not> (fst (peer_analyse peer1 (header pc)) = SEQUENCED
              \<and> command (header pc) = RUDP_CMD_CLOSE)"
    and "\<not> (fst (peer_analyse peer1 (header pc)) = SEQUENCED
              \<and> command (header pc) = RUDP_CMD_PING \<and> state peer1 = PEER_RUN
              \<and> \<not> has_opt (header pc) RUDP_OPT_RETRANSMITTED \<and> len pc < sizeof_header)"
  shows "\<exists>peer3 evs. incoming_dispatch now peer1 pc = incoming_finish now (header pc) peer3 evs"
proof (cases "peer_analyse peer1 (header pc)")
  case (Pair st peer2)
  have st2: "state peer2 = state peer1"
    using analyse_state [of peer1 "header pc"] Pair by simp
  show ?thesis
  proof (cases "st = SEQUENCED \<and> command (header pc) = RUDP_CMD_PING \<and> state peer1 = PEER_RUN")
    case True
    then have "peer_handle_ping now (peer2\<lparr>abs_timeout_deadline := now + DROP_TIMEOUT\<rparr>) pc
                 \<noteq> None"
      using assms(2) Pair by (simp add: ping_faults_iff)
    then obtain peer' where
      "peer_handle_ping now (peer2\<lparr>abs_timeout_deadline := now + DROP_TIMEOUT\<rparr>) pc
         = Some peer'"
      by blast
    then show ?thesis
      using True Pair st2 by (auto simp: incoming_dispatch_def Let_def)
  next
    case False
    then show ?thesis
      using assms(1) Pair st2
      by (cases st) (auto simp: incoming_dispatch_def Let_def)
  qed
qed

lemma connecting_client_simps:
  "connecting_client =
     \<lparr>client_peer =
        \<lparr>address = server_addr, abs_timeout_deadline = 11000, last_out_time = 1000,
         srtt = 100, rttvar = 50, rto = 3000,
         in_seq_reliable = 0xFFFF, in_seq_unreliable = 0,
         out_seq_reliable = 11, out_seq_unreliable = 0, out_seq_acked = 9,
         must_ack = False, scheduled = True, service_timeout = 1,
         state = PEER_CONNECTING,
         sendq = [\<lparr>header = \<lparr>command = RUDP_CMD_CONN_REQ, opt = RUDP_OPT_RELIABLE,
                               reliable_ack = 0, reliable = 11, unreliable = 0\<rparr>,
                    data = [0, 0, 0, 0], len = 12\<rparr>],
         sendto_err = 0\<rparr>,
      connected = False, socket_open = True\<rparr>"
  by (simp add: connecting_client_def rudp_client_connect_def rudp_client_init_def
      rudp_peer_send_connect_def rudp_peer_send_reliable_def rudp_peer_from_sockaddr_def
      peer_init_simps rudp_address_set_def server_addr_def peer_service_schedule_def
      header0_def has_opt_def Let_def)

lemma fresh_peer_b:
  "rudp_peer_from_sockaddr 2000 30 addr_b =
     \<lparr>address = addr_b, abs_timeout_deadline = 12000, last_out_time = 2000,
      srtt = 100, rttvar = 50, rto = 3000,
      in_seq_reliable = 0xFFFF, in_seq_unreliable = 0,
      out_seq_reliable = 30, out_seq_unreliable = 0, out_seq_acked = 29,
      must_ack = False, scheduled = True, service_timeout = 5000,
      state = PEER_NEW, sendq = [], sendto_err = 0\<rparr>"
  by (simp add: rudp_peer_from_sockaddr_def peer_init_simps rudp_address_set_def addr_b_def
      Let_def)

lemma in_seq_schedule [simp]:
  "in_seq_reliable (peer_service_schedule now peer) = in_seq_reliable peer"
  "in_seq_unreliable (peer_service_schedule now peer) = in_seq_unreliable peer"
  by (simp_all add: peer_service_schedule_def Let_def)

lemma in_seq_send_unreliable [simp]:
  "in_seq_reliable (rudp_peer_send_unreliable now peer pc) = in_seq_reliable peer"
  "in_seq_unreliable (rudp_peer_send_unreliable now peer pc) = in_seq_unreliable peer"
  by (simp_all add: rudp_peer_send_unreliable_def Let_def)

lemma in_seq_post_ack [simp]:
  "in_seq_reliable (peer_post_ack now peer) = in_seq_reliable peer"
  "in_seq_unreliable (peer_post_ack now peer) = in_seq_unreliable peer"
  by (simp_all add: peer_post_ack_def Let_def)

lemma in_seq_ping:
  assumes "peer_handle_ping now peer pc = Some peer'"
  shows "in_seq_reliable peer' = in_seq_reliable peer"
    and "in_seq_unreliable peer' = in_seq_unreliable peer"
  using assms by (auto simp: peer_handle_ping_def Let_def split: if_splits)

lemma in_seq_pong [simp]:
  "in_seq_reliable (peer_handle_pong now peer pc) = in_seq_reliable peer"
  "in_seq_unreliable (peer_handle_pong now peer pc) = in_seq_unreliable peer"
  by (simp_all add: peer_handle_pong_def peer_update_rtt_def Let_def)

lemma in_seq_finish [simp]:
  "in_seq_reliable (fst (snd (incoming_finish now h peer evs))) = in_seq_reliable peer"
  "in_seq_unreliable (fst (snd (incoming_finish now h peer evs))) = in_seq_unreliable peer"
  by (simp_all add: incoming_finish_def Let_def)

lemma dispatch_sequenced_in_seq:
  assumes "peer_analyse peer1 (header pc) = (SEQUENCED, peer2)"
  shows "in_seq_reliable (fst (snd (incoming_dispatch now peer1 pc))) = in_seq_reliable peer2"
    and "in_seq_unreliable (fst (snd (incoming_dispatch now peer1 pc))) = in_seq_unreliable peer2"
  using assms
  by (auto simp: incoming_dispatch_def Let_def in_seq_ping split: option.splits)

lemma dispatch_unsequenced_run:
  assumes "peer_analyse peer1 (header pc) = (UNSEQUENCED, peer2)" and "state peer1 = PEER_RUN"
  shows "incoming_dispatch now peer1 pc = incoming_finish now (header pc) peer2 []"
proof -
  have "state peer2 = PEER_RUN"
    using analyse_state [of peer1 "header pc"] assms by simp
  then show ?thesis using assms(1) by (simp add: incoming_dispatch_def Let_def)
qed

section \<open>Inbound sequencing of reliable packets\<close>

text \<open>
  C1. A packet with the RELIABLE flag is classified by its reliable sequence number alone:
  equal to \<open>in_seq_reliable\<close> it is RETRANSMITTED; one more than \<open>in_seq_reliable\<close>
  (in 16-bit arithmetic) it is SEQUENCED, and the peer takes the number as its new
  \<open>in_seq_reliable\<close> and resets \<open>in_seq_unreliable\<close> to 0; any other number is UNSEQUENCED
  and leaves the peer as it was. When \<open>rudp_peer_incoming_packet\<close> has processed a
  packet that was SEQUENCED in this way, whatever its command, the peer holds the packet's
  number as \<open>in_seq_reliable\<close> and 0 as \<open>in_seq_unreliable\<close>.
\<close>

theorem C1_reliable_classification:
  assumes "has_opt (header pc) RUDP_OPT_RELIABLE"
  shows "peer_analyse peer (header pc) =
     (if reliable (header pc) = in_seq_reliable peer then (RETRANSMITTED, peer)
      else if reliable (header pc) = in_seq_reliable peer + 1
      then (SEQUENCED, peer\<lparr>in_seq_reliable := reliable (header pc), in_seq_unreliable := 0\<rparr>)
      else (UNSEQUENCED, peer))
    \<and> (peer_acked peer0 (header pc) = Some peer
        \<and> reliable (header pc) = in_seq_reliable peer + 1 \<longrightarrow>
          in_seq_reliable (fst (snd (rudp_peer_incoming_packet now peer0 pc))) = reliable (header pc)
          \<and> in_seq_unreliable (fst (snd (rudp_peer_incoming_packet now peer0 pc))) = 0)"
proof -
  have cls: "peer_analyse peer (header pc) =
     (if reliable (header pc) = in_seq_reliable peer then (RETRANSMITTED, peer)
      else if reliable (header pc) = in_seq_reliable peer + 1
      then (SEQUENCED, peer\<lparr>in_seq_reliable := reliable (header pc), in_seq_unreliable := 0\<rparr>)
      else (UNSEQUENCED, peer))"
    using assms by (auto simp: peer_analyse_def peer_analyse_reliable_def)
  have eng: "in_seq_reliable (fst (snd (rudp_peer_incoming_packet now peer0 pc))) = reliable (header pc)
          \<and> in_seq_unreliable (fst (snd (rudp_peer_incoming_packet now peer0 pc))) = 0"
    if a: "peer_acked peer0 (header pc) = Some peer"
      and s: "reliable (header pc) = in_seq_reliable peer + 1"
  proof -
    have an: "peer_analyse peer (header pc)
        = (SEQUENCED, peer\<lparr>in_seq_reliable := reliable (header pc), in_seq_unreliable := 0\<rparr>)"
      using s by (simp add: cls)
    show ?thesis
      by (simp add: incoming_packet_acked a dispatch_sequenced_in_seq [OF an])
  qed
  show ?thesis using cls eng by blast
qed

text \<open>The wrap: a peer that has received nothing has \<open>in_seq_reliable = 0xFFFF\<close>, and
  sequence 0 is SEQUENCED.\<close>

theorem C1_witness:
  "has_opt (header rel0_pc) RUDP_OPT_RELIABLE
   \<and> in_seq_reliable run_peer = 0xFFFF
   \<and> peer_analyse run_peer (header rel0_pc)
       = (SEQUENCED, run_peer\<lparr>in_seq_reliable := 0, in_seq_unreliable := 0\<rparr>)
   \<and> peer_acked run_peer (header rel0_pc) = Some run_peer
   \<and> reliable (header rel0_pc) = in_seq_reliable run_peer + 1
   \<and> in_seq_reliable (fst (snd (rudp_peer_incoming_packet 1500 run_peer rel0_pc))) = 0
   \<and> in_seq_unreliable (fst (snd (rudp_peer_incoming_packet 1500 run_peer rel0_pc))) = 0"
proof -
  have h: "has_opt (header rel0_pc) RUDP_OPT_RELIABLE"
    by (simp add: rel0_pc_def has_opt_def header0_def)
  have i: "in_seq_reliable run_peer = 0xFFFF"
    by (simp add: run_peer_simps)
  have a: "peer_acked run_peer (header rel0_pc) = Some run_peer"
    by (simp add: peer_acked_def rel0_pc_def has_opt_def header0_def)
  have r: "reliable (header rel0_pc) = 0"
    by (simp add: rel0_pc_def header0_def)
  show ?thesis
    using C1_reliable_classification [OF h, of run_peer run_peer 1500] h i a r
    by simp
qed

section \<open>Inbound sequencing of unreliable packets\<close>

text \<open>
  C8. A packet without the RELIABLE flag is UNSEQUENCED when its reliable field differs from
  \<open>in_seq_reliable\<close>; otherwise it is UNSEQUENCED when the signed 16-bit difference of its
  unreliable field and \<open>in_seq_unreliable\<close> is zero or negative, and SEQUENCED, with
  \<open>in_seq_unreliable\<close> set to its unreliable field, when that difference is positive,
  whatever its size. After \<open>rudp_peer_incoming_packet\<close> the peer holds the unreliable
  number of a packet that was SEQUENCED; a packet that was UNSEQUENCED for a peer in state
  RUN reaches no handler and leaves both inbound counters as they were.
\<close>

theorem C8_unreliable_classification:
  assumes "\<not> has_opt (header pc) RUDP_OPT_RELIABLE"
  shows "peer_analyse peer (header pc) =
     (if reliable (header pc) \<noteq> in_seq_reliable peer then (UNSEQUENCED, peer)
      else if sint (unreliable (header pc) - in_seq_unreliable peer) \<le> 0 then (UNSEQUENCED, peer)
      else (SEQUENCED, peer\<lparr>in_seq_unreliable := unreliable (header pc)\<rparr>))
    \<and> (peer_acked peer0 (header pc) = Some peer
        \<and> reliable (header pc) = in_seq_reliable peer
        \<and> 0 < sint (unreliable (header pc) - in_seq_unreliable peer) \<longrightarrow>
          in_seq_unreliable (fst (snd (rudp_peer_incoming_packet now peer0 pc)))
            = unreliable (header pc)
          \<and> in_seq_reliable (fst (snd (rudp_peer_incoming_packet now peer0 pc)))
            = in_seq_reliable peer)
    \<and> (peer_acked peer0 (header pc) = Some peer \<and> state peer = PEER_RUN
        \<and> (reliable (header pc) \<noteq> in_seq_reliable peer
           \<or> sint (unreliable (header pc) - in_seq_unreliable peer) \<le> 0) \<longrightarrow>
          snd (snd (rudp_peer_incoming_packet now peer0 pc)) = []
          \<and> in_seq_unreliable (fst (snd (rudp_peer_incoming_packet now peer0 pc)))
            = in_seq_unreliable peer
          \<and> in_seq_reliable (fst (snd (rudp_peer_incoming_packet now peer0 pc)))
            = in_seq_reliable peer)"
proof -
  have cls: "peer_analyse peer (header pc) =
     (if reliable (header pc) \<noteq> in_seq_reliable peer then (UNSEQUENCED, peer)
      else if sint (unreliable (header pc) - in_seq_unreliable peer) \<le> 0 then (UNSEQUENCED, peer)
      else (SEQUENCED, peer\<lparr>in_seq_unreliable := unreliable (header pc)\<rparr>))"
    using assms by (auto simp: peer_analyse_def peer_analyse_unreliable_def Let_def)
  have acc: "in_seq_unreliable (fst (snd (rudp_peer_incoming_packet now peer0 pc)))
            = unreliable (header pc)
          \<and> in_seq_reliable (fst (snd (rudp_peer_incoming_packet now peer0 pc)))
            = in_seq_reliable peer"
    if a: "peer_acked peer0 (header pc) = Some peer"
      and r: "reliable (header pc) = in_seq_reliable peer"
      and d: "0 < sint (unreliable (header pc) - in_seq_unreliable peer)"
  proof -
    have an: "peer_analyse peer (header pc)
        = (SEQUENCED, peer\<lparr>in_seq_unreliable := unreliable (header pc)\<rparr>)"
      using r d by (simp add: cls)
    show ?thesis
      by (simp add: incoming_packet_acked a dispatch_sequenced_in_seq [OF an])
  qed
  have drop: "snd (snd (rudp_peer_incoming_packet now peer0 pc)) = []
          \<and> in_seq_unreliable (fst (snd (rudp_peer_incoming_packet now peer0 pc)))
            = in_seq_unreliable peer
          \<and> in_seq_reliable (fst (snd (rudp_peer_incoming_packet now peer0 pc)))
            = in_seq_reliable peer"
    if a: "peer_acked peer0 (header pc) = Some peer" and st: "state peer = PEER_RUN"
      and u: "reliable (header pc) \<noteq> in_seq_reliable peer
           \<or> sint (unreliable (header pc) - in_seq_unreliable peer) \<le> 0"
  proof -
    have an: "peer_analyse peer (header pc) = (UNSEQUENCED, peer)"
      using u by (auto simp: cls)
    show ?thesis
      by (simp add: incoming_packet_acked a dispatch_unsequenced_run [OF an st] finish_fields)
  qed
  show ?thesis using cls acc drop by blast
qed

text \<open>A step of 3 is accepted and delivered; number 2 arriving after number 3 is dropped; a
  packet of another reliable epoch is dropped.\<close>

theorem C8_witness:
  "\<not> has_opt (header (unrel_pc 0xFFFF 3)) RUDP_OPT_RELIABLE
   \<and> \<not> has_opt (header (unrel_pc 0xFFFF 2)) RUDP_OPT_RELIABLE
   \<and> peer_analyse run_peer (header (unrel_pc 0xFFFF 3))
       = (SEQUENCED, run_peer\<lparr>in_seq_unreliable := 3\<rparr>)
   \<and> in_seq_unreliable (fst (snd (rudp_peer_incoming_packet 1500 run_peer (unrel_pc 0xFFFF 3)))) = 3
   \<and> snd (snd (rudp_peer_incoming_packet 1500 run_peer (unrel_pc 0xFFFF 3)))
       = [Handle_packet (unrel_pc 0xFFFF 3)]
   \<and> fst (peer_analyse (run_peer\<lparr>in_seq_unreliable := 3\<rparr>) (header (unrel_pc 0xFFFF 2)))
       = UNSEQUENCED
   \<and> snd (snd (rudp_peer_incoming_packet 1600 (run_peer\<lparr>in_seq_unreliable := 3\<rparr>)
                 (unrel_pc 0xFFFF 2))) = []
   \<and> in_seq_unreliable (fst (snd (rudp_peer_incoming_packet 1600
                 (run_peer\<lparr>in_seq_unreliable := 3\<rparr>) (unrel_pc 0xFFFF 2)))) = 3
   \<and> fst (peer_analyse run_peer (header (unrel_pc 5 1))) = UNSEQUENCED"
proof -
  let ?p3 = "run_peer\<lparr>in_seq_unreliable := 3\<rparr>"
  have h3: "\<not> has_opt (header (unrel_pc 0xFFFF 3)) RUDP_OPT_RELIABLE"
    and h2: "\<not> has_opt (header (unrel_pc 0xFFFF 2)) RUDP_OPT_RELIABLE"
    and h1: "\<not> has_opt (header (unrel_pc 5 1)) RUDP_OPT_RELIABLE"
    by (simp_all add: has_opt_def unrel_pc_def unrel_hdr_def header0_def)
  have a3: "peer_acked run_peer (header (unrel_pc 0xFFFF 3)) = Some run_peer"
    and a2: "peer_acked ?p3 (header (unrel_pc 0xFFFF 2)) = Some ?p3"
    and a1: "peer_acked run_peer (header (unrel_pc 5 1)) = Some run_peer"
    by (simp_all add: peer_acked_def has_opt_def unrel_pc_def unrel_hdr_def header0_def)
  have f: "reliable (header (unrel_pc 0xFFFF 3)) = 0xFFFF"
    "unreliable (header (unrel_pc 0xFFFF 3)) = 3"
    "reliable (header (unrel_pc 0xFFFF 2)) = 0xFFFF"
    "unreliable (header (unrel_pc 0xFFFF 2)) = 2"
    "reliable (header (unrel_pc 5 1)) = 5"
    "unreliable (header (unrel_pc 5 1)) = 1"
    by (simp_all add: unrel_pc_def unrel_hdr_def header0_def)
  have p: "in_seq_reliable run_peer = 0xFFFF" "in_seq_unreliable run_peer = 0"
    "state run_peer = PEER_RUN"
    by (simp_all add: run_peer_simps)
  have ev: "snd (snd (rudp_peer_incoming_packet 1500 run_peer (unrel_pc 0xFFFF 3)))
       = [Handle_packet (unrel_pc 0xFFFF 3)]"
    by (simp add: rudp_peer_incoming_packet_def incoming_dispatch_def peer_analyse_def
        peer_analyse_unreliable_def incoming_finish_def run_peer_simps unrel_pc_def
        unrel_hdr_def header0_def has_opt_def Let_def)
  show ?thesis
    using C8_unreliable_classification [OF h3, of run_peer run_peer 1500]
      C8_unreliable_classification [OF h2, of ?p3 ?p3 1600]
      C8_unreliable_classification [OF h1, of run_peer run_peer 1500]
      h3 h2 a3 a2 a1 ev
    by (simp add: f p)
qed

section \<open>Acknowledgement processing\<close>

text \<open>
  C2. An acknowledgement that is neither stale nor ahead of \<open>out_seq_reliable\<close> becomes the
  new \<open>out_seq_acked\<close> and removes a prefix of the send queue and nothing else: the queue
  is the removed entries followed by the queue that is left; every removed entry is
  reliable, has been transmitted (RETRANSMITTED set) and has a sequence number not after the
  acknowledged one in signed 16-bit comparison; the first entry left, if any, fails one of
  these three tests.
\<close>

theorem C2_ack_unqueues_prefix:
  assumes "0 \<le> sint (ack - out_seq_acked peer)"
    and "sint (ack - out_seq_reliable peer) \<le> 0"
  shows "peer_handle_ack peer ack =
           (0, peer\<lparr>out_seq_acked := ack,
                    sendq := dropWhile (acked_entry ack) (sendq peer)\<rparr>)
         \<and> out_seq_acked (snd (peer_handle_ack peer ack)) = ack
         \<and> sendq peer = takeWhile (acked_entry ack) (sendq peer)
                          @ sendq (snd (peer_handle_ack peer ack))
         \<and> (\<forall>pc \<in> set (takeWhile (acked_entry ack) (sendq peer)).
               has_opt (header pc) RUDP_OPT_RELIABLE
               \<and> has_opt (header pc) RUDP_OPT_RETRANSMITTED
               \<and> sint (reliable (header pc) - ack) \<le> 0)
         \<and> (case sendq (snd (peer_handle_ack peer ack)) of
               [] \<Rightarrow> True
             | pc # _ \<Rightarrow> \<not> (has_opt (header pc) RUDP_OPT_RELIABLE
                            \<and> has_opt (header pc) RUDP_OPT_RETRANSMITTED
                            \<and> sint (reliable (header pc) - ack) \<le> 0))"
proof -
  let ?q = "dropWhile (acked_entry ack) (sendq peer)"
  have eq: "peer_handle_ack peer ack = (0, peer\<lparr>out_seq_acked := ack, sendq := ?q\<rparr>)"
    using assms by (simp add: peer_handle_ack_def Let_def ack_unqueue_dropWhile)
  have removed: "\<forall>pc \<in> set (takeWhile (acked_entry ack) (sendq peer)). acked_entry ack pc"
    by (auto dest: set_takeWhileD)
  have stop: "case ?q of [] \<Rightarrow> True | pc # _ \<Rightarrow> \<not> acked_entry ack pc"
  proof (cases ?q)
    case Nil
    show ?thesis unfolding Nil by simp
  next
    case (Cons pc rest)
    have "?q \<noteq> []" unfolding Cons by simp
    from hd_dropWhile [OF this] show ?thesis unfolding Cons by simp
  qed
  have removed': "\<forall>pc \<in> set (takeWhile (acked_entry ack) (sendq peer)).
               has_opt (header pc) RUDP_OPT_RELIABLE
               \<and> has_opt (header pc) RUDP_OPT_RETRANSMITTED
               \<and> sint (reliable (header pc) - ack) \<le> 0"
    using removed unfolding acked_entry_def by blast
  have stop': "case ?q of [] \<Rightarrow> True
             | pc # _ \<Rightarrow> \<not> (has_opt (header pc) RUDP_OPT_RELIABLE
                            \<and> has_opt (header pc) RUDP_OPT_RETRANSMITTED
                            \<and> sint (reliable (header pc) - ack) \<le> 0)"
    using stop unfolding acked_entry_def .
  have snd_eq: "snd (peer_handle_ack peer ack) = peer\<lparr>out_seq_acked := ack, sendq := ?q\<rparr>"
    by (simp add: eq)
  have q_eq: "sendq (snd (peer_handle_ack peer ack)) = ?q"
    by (simp add: snd_eq)
  have acked_eq: "out_seq_acked (snd (peer_handle_ack peer ack)) = ack"
    by (simp add: snd_eq)
  have split: "sendq peer = takeWhile (acked_entry ack) (sendq peer)
                          @ sendq (snd (peer_handle_ack peer ack))"
    unfolding q_eq by simp
  show ?thesis
    using eq acked_eq split removed' stop' unfolding q_eq by blast
qed

text \<open>Acknowledging 6 with entries 5 and 6 transmitted, 7 not yet transmitted and an
  unreliable entry behind it: 5 and 6 leave, the rest stays.\<close>

theorem C2_witness:
  "0 \<le> sint (6 - out_seq_acked ((rudp_peer_init 1000 5)\<lparr>out_seq_reliable := 7,
             sendq := [qent 5 5, qent 5 6, qent 1 7, qent 0 7]\<rparr>))
   \<and> sint (6 - out_seq_reliable ((rudp_peer_init 1000 5)\<lparr>out_seq_reliable := 7,
             sendq := [qent 5 5, qent 5 6, qent 1 7, qent 0 7]\<rparr>)) \<le> 0
   \<and> peer_handle_ack ((rudp_peer_init 1000 5)\<lparr>out_seq_reliable := 7,
             sendq := [qent 5 5, qent 5 6, qent 1 7, qent 0 7]\<rparr>) 6
       = (0, (rudp_peer_init 1000 5)\<lparr>out_seq_reliable := 7, out_seq_acked := 6,
                sendq := [qent 1 7, qent 0 7]\<rparr>)"
proof -
  let ?p = "(rudp_peer_init 1000 5)\<lparr>out_seq_reliable := 7,
             sendq := [qent 5 5, qent 5 6, qent 1 7, qent 0 7]\<rparr>"
  have a: "0 \<le> sint (6 - out_seq_acked ?p)" by (simp add: peer_init_simps)
  have b: "sint (6 - out_seq_reliable ?p) \<le> 0" by (simp add: peer_init_simps)
  show ?thesis
    using C2_ack_unqueues_prefix [OF a b] a b
    by (simp add: peer_init_simps acked_entry_def qent_def has_opt_def header0_def)
qed

section \<open>Validation of the acknowledged sequence\<close>

text \<open>
  C3 (as amended). For a packet with the ACK flag: when the signed 16-bit difference of the
  acknowledged number and \<open>out_seq_acked\<close> is negative, the acknowledgement changes
  nothing and the packet is classified and dispatched as if it carried none; when that
  difference is not negative and the signed 16-bit difference of the acknowledged number and
  \<open>out_seq_reliable\<close> is positive, the packet is refused with \<open>EINVAL\<close>, the peer
  is left exactly as it was and no handler is called.
\<close>

theorem C3_ack_validation:
  assumes "has_opt (header pc) RUDP_OPT_ACK"
  shows "(sint (reliable_ack (header pc) - out_seq_acked peer) < 0 \<longrightarrow>
            peer_handle_ack peer (reliable_ack (header pc)) = (0, peer)
            \<and> rudp_peer_incoming_packet now peer pc = incoming_dispatch now peer pc)
         \<and> (0 \<le> sint (reliable_ack (header pc) - out_seq_acked peer)
            \<and> 0 < sint (reliable_ack (header pc) - out_seq_reliable peer) \<longrightarrow>
            rudp_peer_incoming_packet now peer pc = (EINVAL, peer, []))"
  using assms
  by (simp add: rudp_peer_incoming_packet_def peer_handle_ack_def Let_def)

text \<open>The example of the specification: with \<open>out_seq_reliable = 10\<close> and
  \<open>out_seq_acked = 5\<close>, an acknowledgement of 4 is stale and one of 20 is refused.\<close>

theorem C3_witness:
  "has_opt (ack_hdr RUDP_CMD_APP 3 4 0) RUDP_OPT_ACK
   \<and> sint (reliable_ack (ack_hdr RUDP_CMD_APP 3 4 0)
            - out_seq_acked ((rudp_peer_init 1000 10)\<lparr>out_seq_acked := 5\<rparr>)) < 0
   \<and> rudp_peer_incoming_packet 1500 ((rudp_peer_init 1000 10)\<lparr>out_seq_acked := 5\<rparr>)
        \<lparr>header = ack_hdr RUDP_CMD_APP 3 4 0, data = [], len = 8\<rparr>
      = incoming_dispatch 1500 ((rudp_peer_init 1000 10)\<lparr>out_seq_acked := 5\<rparr>)
        \<lparr>header = ack_hdr RUDP_CMD_APP 3 4 0, data = [], len = 8\<rparr>
   \<and> has_opt (ack_hdr RUDP_CMD_APP 3 20 0) RUDP_OPT_ACK
   \<and> 0 \<le> sint (reliable_ack (ack_hdr RUDP_CMD_APP 3 20 0)
            - out_seq_acked ((rudp_peer_init 1000 10)\<lparr>out_seq_acked := 5\<rparr>))
   \<and> 0 < sint (reliable_ack (ack_hdr RUDP_CMD_APP 3 20 0)
            - out_seq_reliable ((rudp_peer_init 1000 10)\<lparr>out_seq_acked := 5\<rparr>))
   \<and> rudp_peer_incoming_packet 1500 ((rudp_peer_init 1000 10)\<lparr>out_seq_acked := 5\<rparr>)
        \<lparr>header = ack_hdr RUDP_CMD_APP 3 20 0, data = [], len = 8\<rparr>
      = (EINVAL, (rudp_peer_init 1000 10)\<lparr>out_seq_acked := 5\<rparr>, [])"
proof -
  let ?p = "(rudp_peer_init 1000 10)\<lparr>out_seq_acked := 5\<rparr>"
  let ?stale = "\<lparr>header = ack_hdr RUDP_CMD_APP 3 4 0, data = [], len = 8\<rparr>"
  let ?ahead = "\<lparr>header = ack_hdr RUDP_CMD_APP 3 20 0, data = [], len = 8\<rparr>"
  have a: "has_opt (header ?stale) RUDP_OPT_ACK" and b: "has_opt (header ?ahead) RUDP_OPT_ACK"
    by (simp_all add: has_opt_def ack_hdr_def)
  have s: "sint (reliable_ack (header ?stale) - out_seq_acked ?p) < 0"
    by (simp add: ack_hdr_def peer_init_simps)
  have n: "0 \<le> sint (reliable_ack (header ?ahead) - out_seq_acked ?p)"
    and v: "0 < sint (reliable_ack (header ?ahead) - out_seq_reliable ?p)"
    by (simp_all add: ack_hdr_def peer_init_simps)
  show ?thesis
    using C3_ack_validation [OF a, of ?p 1500] C3_ack_validation [OF b, of ?p 1500] a b s n v
    by simp
qed

text \<open>
  The staleness test comes first. A fresh peer has \<open>out_seq_reliable = 10\<close> and
  \<open>out_seq_acked = 9\<close>; the acknowledged number \<open>0x8009\<close> is half the number circle
  away, behind \<open>out_seq_acked\<close> and ahead of \<open>out_seq_reliable\<close> at once. The
  connection request that carries it is not refused: it completes the handshake.
\<close>

theorem C3_counterexample:
  "has_opt (ack_hdr RUDP_CMD_CONN_REQ 3 0x8009 77) RUDP_OPT_ACK
   \<and> sint (reliable_ack (ack_hdr RUDP_CMD_CONN_REQ 3 0x8009 77)
           - out_seq_acked (rudp_peer_init 1000 10)) < 0
   \<and> 0 < sint (reliable_ack (ack_hdr RUDP_CMD_CONN_REQ 3 0x8009 77)
               - out_seq_reliable (rudp_peer_init 1000 10))
   \<and> fst (rudp_peer_incoming_packet 1500 (rudp_peer_init 1000 10)
            \<lparr>header = ack_hdr RUDP_CMD_CONN_REQ 3 0x8009 77, data = [0, 0, 0, 0],
              len = 12\<rparr>) = 0
   \<and> state (fst (snd (rudp_peer_incoming_packet 1500 (rudp_peer_init 1000 10)
            \<lparr>header = ack_hdr RUDP_CMD_CONN_REQ 3 0x8009 77, data = [0, 0, 0, 0],
              len = 12\<rparr>))) = PEER_RUN
   \<and> state (rudp_peer_init 1000 10) = PEER_NEW
   \<and> must_ack (fst (snd (rudp_peer_incoming_packet 1500 (rudp_peer_init 1000 10)
            \<lparr>header = ack_hdr RUDP_CMD_CONN_REQ 3 0x8009 77, data = [0, 0, 0, 0],
              len = 12\<rparr>)))
   \<and> \<not> must_ack (rudp_peer_init 1000 10)"
  by (simp add: peer_init_simps ack_hdr_def has_opt_def rudp_peer_incoming_packet_def
      peer_handle_ack_def incoming_dispatch_def peer_analyse_def peer_analyse_reliable_def
      peer_handle_connreq_def rudp_peer_send_unreliable_def peer_service_schedule_def
      incoming_finish_def peer_post_ack_def header0_def Let_def)

section \<open>The wake time of the service timer\<close>

text \<open>
  C5 (as amended). Every recomputation arms the timer with a delay of at least 1 ms. With an
  empty send queue the delay is \<open>ACTION_TIMEOUT\<close>, cut down to the time left until
  \<open>abs_timeout_deadline\<close> and raised to 1 ms when that is not positive; with a head that
  has not been transmitted the delay is the minimum of 1 ms; and as long as the deadline is
  still ahead the wake time is not after it. Nothing else of the peer changes. The delay for
  a head that has already been transmitted is not part of this statement.
\<close>

theorem C5_service_schedule:
  "scheduled (peer_service_schedule now peer)
   \<and> 1 \<le> service_timeout (peer_service_schedule now peer)
   \<and> (sendq peer = [] \<longrightarrow>
        service_timeout (peer_service_schedule now peer)
          = max 1 (min ACTION_TIMEOUT (abs_timeout_deadline peer - now)))
   \<and> (sendq peer \<noteq> [] \<and> \<not> has_opt (header (hd (sendq peer))) RUDP_OPT_RETRANSMITTED \<longrightarrow>
        service_timeout (peer_service_schedule now peer) = 1)
   \<and> (now < abs_timeout_deadline peer \<longrightarrow>
        now + service_timeout (peer_service_schedule now peer) \<le> abs_timeout_deadline peer)
   \<and> peer_service_schedule now peer
        = peer\<lparr>service_timeout := service_timeout (peer_service_schedule now peer),
               scheduled := True\<rparr>"
  by (cases "sendq peer") (auto simp: peer_service_schedule_def Let_def)

theorem C5_witness:
  "sendq (rudp_peer_init 900 5) = []
   \<and> service_timeout (peer_service_schedule 7000 (rudp_peer_init 900 5)) = 3900
   \<and> sendq ((rudp_peer_init 900 5)\<lparr>sendq := [qent 1 6]\<rparr>) \<noteq> []
   \<and> \<not> has_opt (header (hd (sendq ((rudp_peer_init 900 5)\<lparr>sendq := [qent 1 6]\<rparr>))))
          RUDP_OPT_RETRANSMITTED
   \<and> service_timeout (peer_service_schedule 7000 ((rudp_peer_init 900 5)\<lparr>sendq := [qent 1 6]\<rparr>)) = 1
   \<and> (7000::int) < abs_timeout_deadline (rudp_peer_init 900 5)
   \<and> 7000 + service_timeout (peer_service_schedule 7000 (rudp_peer_init 900 5))
        \<le> abs_timeout_deadline (rudp_peer_init 900 5)"
  using C5_service_schedule [of 7000 "rudp_peer_init 900 5"]
    C5_service_schedule [of 7000 "(rudp_peer_init 900 5)\<lparr>sendq := [qent 1 6]\<rparr>"]
  by (simp add: peer_init_simps qent_def has_opt_def header0_def)

text \<open>
  With a transmitted head, \<open>last_out_time = 900\<close> and \<open>rto = 300\<close>, the timer armed
  at 1000 fires at 1400, not at 1200: the source adds the time since the last transmission
  to \<open>rto\<close>. And once the deadline (10900) has passed, the wake at 11001 is after it.
\<close>

theorem C5_counterexample:
  "has_opt (header (hd (sendq ((rudp_peer_init 900 5)\<lparr>rto := 300, sendq := [qent 5 6]\<rparr>))))
     RUDP_OPT_RETRANSMITTED
   \<and> last_out_time ((rudp_peer_init 900 5)\<lparr>rto := 300, sendq := [qent 5 6]\<rparr>)
       + rto ((rudp_peer_init 900 5)\<lparr>rto := 300, sendq := [qent 5 6]\<rparr>) = 1200
   \<and> 1000 + service_timeout (peer_service_schedule 1000
        ((rudp_peer_init 900 5)\<lparr>rto := 300, sendq := [qent 5 6]\<rparr>)) = 1400
   \<and> abs_timeout_deadline (rudp_peer_init 900 5) = 10900
   \<and> 11000 + service_timeout (peer_service_schedule 11000 (rudp_peer_init 900 5)) = 11001"
  by (simp add: peer_init_simps peer_service_schedule_def qent_def has_opt_def header0_def Let_def)

section \<open>PING and PONG\<close>

text \<open>
  C9. A PING that is SEQUENCED for a peer in state RUN and has its RETRANSMITTED flag clear is
  to be answered with exactly one unreliable PONG that echoes its payload. Evaluated on a
  peer in state RUN and a reliable PING, next in sequence, that is 6 bytes long: the engine
  classifies it, refreshes the deadline and calls \<open>peer_handle_ping\<close>; the length of the
  payload copy, \<open>6 - 8\<close> in \<open>size_t\<close>, is \<open>2\<^sup>6\<^sup>4 - 2\<close>; the call ends in a memory
  fault, no PONG is queued and no ack is posted. The same peer answers a PING of 16 bytes
  with one PONG that has no flags and carries the 8 bytes of payload.
\<close>

theorem C9_short_ping_faults:
  "command (header short_ping) = RUDP_CMD_PING
   \<and> \<not> has_opt (header short_ping) RUDP_OPT_RETRANSMITTED
   \<and> state run_peer = PEER_RUN
   \<and> fst (peer_analyse run_peer (header short_ping)) = SEQUENCED
   \<and> len short_ping = 6
   \<and> size_sub (len short_ping) sizeof_header = 2 ^ 64 - 2
   \<and> rudp_peer_incoming_packet 1500 run_peer short_ping
       = (NO_RETURN,
          run_peer\<lparr>in_seq_reliable := 0, in_seq_unreliable := 0, abs_timeout_deadline := 11500\<rparr>,
          [Fault])
   \<and> sendq (fst (snd (rudp_peer_incoming_packet 1500 run_peer short_ping))) = []
   \<and> \<not> must_ack (fst (snd (rudp_peer_incoming_packet 1500 run_peer short_ping)))
   \<and> map (\<lambda>pc. (command (header pc), opt (header pc), data pc, len pc))
         (sendq (fst (snd (rudp_peer_incoming_packet 1500 run_peer (ping_pc 1 0)))))
       = [(RUDP_CMD_PONG, 0, [1, 2, 3, 4, 5, 6, 7, 8], 16)]"
  by (simp add: rudp_peer_incoming_packet_def incoming_dispatch_def peer_analyse_def
      peer_analyse_reliable_def peer_handle_ping_def size_sub_def alloc_size_def
      rudp_peer_send_unreliable_def peer_service_schedule_def incoming_finish_def
      peer_post_ack_def short_ping_def ping_pc_def has_opt_def run_peer_simps header0_def
      Let_def)

text \<open>
  It is so for every PING that is shorter than its header: SEQUENCED for a peer in state RUN
  and with RETRANSMITTED clear, it ends in the fault, with the send queue and
  \<open>must_ack\<close> as they were.
\<close>

lemma short_ping_never_answered:
  assumes acked: "peer_acked peer (header pc) = Some peer1"
    and seq: "fst (peer_analyse peer1 (header pc)) = SEQUENCED"
    and ping: "command (header pc) = RUDP_CMD_PING"
    and run: "state peer1 = PEER_RUN"
    and short: "len pc < sizeof_header"
    and fresh: "\<not> has_opt (header pc) RUDP_OPT_RETRANSMITTED"
  shows "rudp_peer_incoming_packet now peer pc
           = (NO_RETURN,
              (snd (peer_analyse peer1 (header pc)))\<lparr>abs_timeout_deadline := now + DROP_TIMEOUT\<rparr>,
              [Fault])
         \<and> sendq (fst (snd (rudp_peer_incoming_packet now peer pc))) = sendq peer1
         \<and> must_ack (fst (snd (rudp_peer_incoming_packet now peer pc))) = must_ack peer1"
proof -
  obtain peer2 where an: "peer_analyse peer1 (header pc) = (SEQUENCED, peer2)"
    using seq by (cases "peer_analyse peer1 (header pc)") simp
  have p2: "peer2 = snd (peer_analyse peer1 (header pc))" by (simp add: an)
  have f2: "state peer2 = PEER_RUN" "sendq peer2 = sendq peer1" "must_ack peer2 = must_ack peer1"
    using run by (simp_all add: p2)
  have s2: "snd (peer_analyse peer1 (header pc)) = peer2" by (simp add: an)
  have eq: "rudp_peer_incoming_packet now peer pc
           = (NO_RETURN, peer2\<lparr>abs_timeout_deadline := now + DROP_TIMEOUT\<rparr>, [Fault])"
    using f2(1)
    by (simp add: incoming_packet_acked acked incoming_dispatch_def an ping
        ping_faults [OF short fresh] Let_def)
  show ?thesis unfolding eq s2 by (simp add: f2)
qed

text \<open>
  For PINGs that are at least a header long the engine does what is asked of it. Such a PING,
  SEQUENCED for a peer in state RUN, is processed without error and without a handler call.
  With RETRANSMITTED clear the send queue grows by exactly one entry: a PONG without flags,
  numbered as the next unreliable packet, of the length of the PING and with its payload.
  With RETRANSMITTED set no PONG is queued: the queue is as it was, or holds the one NOOP
  that carries the ack of a reliable PING. In both cases \<open>must_ack\<close> is set by a reliable
  PING and left as it was by an unreliable one.
\<close>

lemma ping_answered:
  assumes acked: "peer_acked peer (header pc) = Some peer1"
    and seq: "fst (peer_analyse peer1 (header pc)) = SEQUENCED"
    and ping: "command (header pc) = RUDP_CMD_PING"
    and run: "state peer1 = PEER_RUN"
    and long: "sizeof_header \<le> len pc"
  shows "fst (rudp_peer_incoming_packet now peer pc) = 0
         \<and> snd (snd (rudp_peer_incoming_packet now peer pc)) = []
         \<and> must_ack (fst (snd (rudp_peer_incoming_packet now peer pc)))
             = (has_opt (header pc) RUDP_OPT_RELIABLE \<or> must_ack peer1)
         \<and> (\<not> has_opt (header pc) RUDP_OPT_RETRANSMITTED \<longrightarrow>
               (\<exists>pong. sendq (fst (snd (rudp_peer_incoming_packet now peer pc)))
                          = sendq peer1 @ [pong]
                  \<and> command (header pong) = RUDP_CMD_PONG
                  \<and> opt (header pong) = 0
                  \<and> reliable (header pong) = out_seq_reliable peer1
                  \<and> unreliable (header pong) = out_seq_unreliable peer1 + 1
                  \<and> data pong = take (size_sub (len pc) sizeof_header) (data pc)
                  \<and> len pong = len pc))
         \<and> (has_opt (header pc) RUDP_OPT_RETRANSMITTED \<longrightarrow>
               (if has_opt (header pc) RUDP_OPT_RELIABLE \<and> sendq peer1 = []
                then map (\<lambda>e. command (header e))
                       (sendq (fst (snd (rudp_peer_incoming_packet now peer pc))))
                     = [RUDP_CMD_NOOP]
                else sendq (fst (snd (rudp_peer_incoming_packet now peer pc))) = sendq peer1))"
proof -
  obtain peer2 where an: "peer_analyse peer1 (header pc) = (SEQUENCED, peer2)"
    using seq by (cases "peer_analyse peer1 (header pc)") simp
  have p2: "peer2 = snd (peer_analyse peer1 (header pc))" by (simp add: an)
  have st2: "state peer2 = PEER_RUN" and q2: "sendq peer2 = sendq peer1"
    and o2: "out_seq_reliable peer2 = out_seq_reliable peer1"
            "out_seq_unreliable peer2 = out_seq_unreliable peer1"
            "must_ack peer2 = must_ack peer1"
    using run by (simp_all add: p2)
  let ?p3 = "peer2\<lparr>abs_timeout_deadline := now + DROP_TIMEOUT\<rparr>"
  let ?p4 = "if has_opt (header pc) RUDP_OPT_RETRANSMITTED then ?p3
             else rudp_peer_send_unreliable now ?p3
                    \<lparr>header = header0\<lparr>command := RUDP_CMD_PONG, opt := 0\<rparr>,
                     data = take (size_sub (len pc) sizeof_header) (data pc),
                     len = len pc\<rparr>"
  have eq: "rudp_peer_incoming_packet now peer pc = incoming_finish now (header pc) ?p4 []"
    using st2
    by (simp add: incoming_packet_acked acked incoming_dispatch_def an ping
        ping_returns [OF long] Let_def)
  show ?thesis
    unfolding eq
    by (simp add: finish_fields q2 o2 noop_of_def header0_def)
qed

section \<open>Posting the acknowledgement of reliable packets\<close>

text \<open>
  C10 (as amended). A packet with the RELIABLE flag that is not given up for its ACK field
  is answered with an acknowledgement whatever its classification, out-of-order packets
  included: the call returns 0, \<open>must_ack\<close> is set and the send queue is not empty, and
  for a duplicate or an ignored out-of-order packet that finds the queue empty the one entry
  is the NOOP carrier. The exception is a SEQUENCED CLOSE: the peer goes to \<open>PEER_DEAD\<close>,
  \<open>dropped\<close> is called, and neither \<open>must_ack\<close> nor the send queue changes. Nothing
  is said here of the one packet that ends in the PING handler's memory fault: a PING
  shorter than its header, SEQUENCED for a peer in state RUN, with RETRANSMITTED clear.
\<close>

theorem C10_reliable_posts_ack:
  assumes rel: "has_opt (header pc) RUDP_OPT_RELIABLE"
    and acked: "peer_acked peer (header pc) = Some peer1"
  shows "(\<not> (fst (peer_analyse peer1 (header pc)) = SEQUENCED
              \<and> command (header pc) = RUDP_CMD_CLOSE)
          \<and> \<not> (fst (peer_analyse peer1 (header pc)) = SEQUENCED
              \<and> command (header pc) = RUDP_CMD_PING \<and> state peer1 = PEER_RUN
              \<and> \<not> has_opt (header pc) RUDP_OPT_RETRANSMITTED \<and> len pc < sizeof_header) \<longrightarrow>
            fst (rudp_peer_incoming_packet now peer pc) = 0
            \<and> must_ack (fst (snd (rudp_peer_incoming_packet now peer pc)))
            \<and> sendq (fst (snd (rudp_peer_incoming_packet now peer pc))) \<noteq> [])
         \<and> (fst (peer_analyse peer1 (header pc)) = RETRANSMITTED \<longrightarrow>
            sendq (fst (snd (rudp_peer_incoming_packet now peer pc)))
              = (if sendq peer1 = [] then [noop_of peer1] else sendq peer1))
         \<and> (fst (peer_analyse peer1 (header pc)) = UNSEQUENCED
            \<and> command (header pc) \<noteq> RUDP_CMD_CONN_REQ
            \<and> command (header pc) \<noteq> RUDP_CMD_CONN_RSP \<longrightarrow>
            sendq (fst (snd (rudp_peer_incoming_packet now peer pc)))
              = (if sendq peer1 = [] then [noop_of peer1] else sendq peer1))
         \<and> (fst (peer_analyse peer1 (header pc)) = SEQUENCED
            \<and> command (header pc) = RUDP_CMD_CLOSE \<longrightarrow>
            rudp_peer_incoming_packet now peer pc
              = (0, (snd (peer_analyse peer1 (header pc)))
                      \<lparr>abs_timeout_deadline := now + DROP_TIMEOUT, state := PEER_DEAD\<rparr>,
                 [Dropped])
            \<and> must_ack (fst (snd (rudp_peer_incoming_packet now peer pc))) = must_ack peer
            \<and> sendq (fst (snd (rudp_peer_incoming_packet now peer pc))) = sendq peer1)"
proof -
  have eq: "rudp_peer_incoming_packet now peer pc = incoming_dispatch now peer1 pc"
    by (simp add: incoming_packet_acked acked)
  have m1: "must_ack peer1 = must_ack peer"
  proof (cases "has_opt (header pc) RUDP_OPT_ACK")
    case True
    then have "peer1 = snd (peer_handle_ack peer (reliable_ack (header pc)))"
      using acked by (auto simp: peer_acked_def split: prod.splits if_splits)
    then show ?thesis by simp
  next
    case False
    then show ?thesis using acked by (simp add: peer_acked_def)
  qed
  have A: "fst (incoming_dispatch now peer1 pc) = 0
            \<and> must_ack (fst (snd (incoming_dispatch now peer1 pc)))
            \<and> sendq (fst (snd (incoming_dispatch now peer1 pc))) \<noteq> []"
    if h: "\<not> (fst (peer_analyse peer1 (header pc)) = SEQUENCED
              \<and> command (header pc) = RUDP_CMD_CLOSE)"
      and nf: "\<not> (fst (peer_analyse peer1 (header pc)) = SEQUENCED
              \<and> command (header pc) = RUDP_CMD_PING \<and> state peer1 = PEER_RUN
              \<and> \<not> has_opt (header pc) RUDP_OPT_RETRANSMITTED \<and> len pc < sizeof_header)"
  proof -
    from dispatch_finish [OF h nf] obtain peer3 evs where
      "incoming_dispatch now peer1 pc = incoming_finish now (header pc) peer3 evs" by blast
    then show ?thesis using rel by (simp add: finish_fields)
  qed
  have B: "sendq (fst (snd (incoming_dispatch now peer1 pc)))
              = (if sendq peer1 = [] then [noop_of peer1] else sendq peer1)"
    if h: "fst (peer_analyse peer1 (header pc)) = RETRANSMITTED"
  proof -
    obtain peer2 where an: "peer_analyse peer1 (header pc) = (RETRANSMITTED, peer2)"
      using h by (cases "peer_analyse peer1 (header pc)") simp
    have p2: "peer2 = snd (peer_analyse peer1 (header pc))" by (simp add: an)
    have f2: "sendq peer2 = sendq peer1"
      "out_seq_reliable peer2 = out_seq_reliable peer1"
      "out_seq_unreliable peer2 = out_seq_unreliable peer1"
      "must_ack peer2 = must_ack peer1" "state peer2 = state peer1"
      by (simp_all add: p2)
    show ?thesis
      using rel by (simp add: incoming_dispatch_def an finish_fields noop_of_def f2)
  qed
  have C: "sendq (fst (snd (incoming_dispatch now peer1 pc)))
              = (if sendq peer1 = [] then [noop_of peer1] else sendq peer1)"
    if h: "fst (peer_analyse peer1 (header pc)) = UNSEQUENCED"
      "command (header pc) \<noteq> RUDP_CMD_CONN_REQ" "command (header pc) \<noteq> RUDP_CMD_CONN_RSP"
  proof -
    obtain peer2 where an: "peer_analyse peer1 (header pc) = (UNSEQUENCED, peer2)"
      using h(1) by (cases "peer_analyse peer1 (header pc)") simp
    have p2: "peer2 = snd (peer_analyse peer1 (header pc))" by (simp add: an)
    have f2: "sendq peer2 = sendq peer1"
      "out_seq_reliable peer2 = out_seq_reliable peer1"
      "out_seq_unreliable peer2 = out_seq_unreliable peer1"
      "must_ack peer2 = must_ack peer1" "state peer2 = state peer1"
      by (simp_all add: p2)
    show ?thesis
      using rel h(2,3) by (simp add: incoming_dispatch_def an finish_fields noop_of_def f2)
  qed
  have D: "incoming_dispatch now peer1 pc
              = (0, (snd (peer_analyse peer1 (header pc)))
                      \<lparr>abs_timeout_deadline := now + DROP_TIMEOUT, state := PEER_DEAD\<rparr>,
                 [Dropped])
            \<and> must_ack (fst (snd (incoming_dispatch now peer1 pc))) = must_ack peer
            \<and> sendq (fst (snd (incoming_dispatch now peer1 pc))) = sendq peer1"
    if h: "fst (peer_analyse peer1 (header pc)) = SEQUENCED" "command (header pc) = RUDP_CMD_CLOSE"
  proof -
    obtain peer2 where an: "peer_analyse peer1 (header pc) = (SEQUENCED, peer2)"
      using h(1) by (cases "peer_analyse peer1 (header pc)") simp
    have p2: "peer2 = snd (peer_analyse peer1 (header pc))" by (simp add: an)
    have f2: "sendq peer2 = sendq peer1"
      "out_seq_reliable peer2 = out_seq_reliable peer1"
      "out_seq_unreliable peer2 = out_seq_unreliable peer1"
      "must_ack peer2 = must_ack peer1" "state peer2 = state peer1"
      by (simp_all add: p2)
    have s2: "snd (peer_analyse peer1 (header pc)) = peer2" by (simp add: an)
    show ?thesis
      unfolding dispatch_close [OF an h(2)] s2 by (simp add: f2 m1)
  qed
  show ?thesis unfolding eq using A B C D by blast
qed

text \<open>An out-of-order reliable packet and a duplicate are both acknowledged through a NOOP,
  a reliable PING in sequence through the PONG that answers it; a reliable CLOSE in sequence
  is not acknowledged.\<close>

theorem C10_witness:
  "has_opt (header (rel_pc RUDP_CMD_APP 5)) RUDP_OPT_RELIABLE
   \<and> peer_acked run_peer (header (rel_pc RUDP_CMD_APP 5)) = Some run_peer
   \<and> fst (peer_analyse run_peer (header (rel_pc RUDP_CMD_APP 5))) = UNSEQUENCED
   \<and> must_ack (fst (snd (rudp_peer_incoming_packet 1500 run_peer (rel_pc RUDP_CMD_APP 5))))
   \<and> sendq (fst (snd (rudp_peer_incoming_packet 1500 run_peer (rel_pc RUDP_CMD_APP 5))))
        = [noop_of run_peer]
   \<and> fst (peer_analyse run_peer (header (rel_pc RUDP_CMD_APP 0xFFFF))) = RETRANSMITTED
   \<and> must_ack (fst (snd (rudp_peer_incoming_packet 1500 run_peer (rel_pc RUDP_CMD_APP 0xFFFF))))
   \<and> sendq (fst (snd (rudp_peer_incoming_packet 1500 run_peer (rel_pc RUDP_CMD_APP 0xFFFF))))
        = [noop_of run_peer]
   \<and> fst (peer_analyse run_peer (header (rel_pc RUDP_CMD_CLOSE 0))) = SEQUENCED
   \<and> snd (snd (rudp_peer_incoming_packet 1500 run_peer (rel_pc RUDP_CMD_CLOSE 0))) = [Dropped]
   \<and> state (fst (snd (rudp_peer_incoming_packet 1500 run_peer (rel_pc RUDP_CMD_CLOSE 0))))
        = PEER_DEAD
   \<and> \<not> must_ack (fst (snd (rudp_peer_incoming_packet 1500 run_peer (rel_pc RUDP_CMD_CLOSE 0))))
   \<and> sendq (fst (snd (rudp_peer_incoming_packet 1500 run_peer (rel_pc RUDP_CMD_CLOSE 0)))) = []
   \<and> has_opt (header (ping_pc 1 0)) RUDP_OPT_RELIABLE
   \<and> command (header (ping_pc 1 0)) = RUDP_CMD_PING
   \<and> sizeof_header \<le> len (ping_pc 1 0)
   \<and> fst (peer_analyse run_peer (header (ping_pc 1 0))) = SEQUENCED
   \<and> must_ack (fst (snd (rudp_peer_incoming_packet 1500 run_peer (ping_pc 1 0))))
   \<and> sendq (fst (snd (rudp_peer_incoming_packet 1500 run_peer (ping_pc 1 0)))) \<noteq> []"
proof -
  have r: "has_opt (header (rel_pc RUDP_CMD_APP 5)) RUDP_OPT_RELIABLE"
    "has_opt (header (rel_pc RUDP_CMD_APP 0xFFFF)) RUDP_OPT_RELIABLE"
    "has_opt (header (rel_pc RUDP_CMD_CLOSE 0)) RUDP_OPT_RELIABLE"
    "has_opt (header (ping_pc 1 0)) RUDP_OPT_RELIABLE"
    by (simp_all add: rel_pc_def ping_pc_def ack_hdr_def has_opt_def)
  have a: "peer_acked run_peer (header (rel_pc RUDP_CMD_APP 5)) = Some run_peer"
    "peer_acked run_peer (header (rel_pc RUDP_CMD_APP 0xFFFF)) = Some run_peer"
    "peer_acked run_peer (header (rel_pc RUDP_CMD_CLOSE 0)) = Some run_peer"
    "peer_acked run_peer (header (ping_pc 1 0)) = Some run_peer"
    by (simp_all add: peer_acked_def rel_pc_def ping_pc_def ack_hdr_def has_opt_def)
  have pg: "command (header (ping_pc 1 0)) = RUDP_CMD_PING" "sizeof_header \<le> len (ping_pc 1 0)"
    "fst (peer_analyse run_peer (header (ping_pc 1 0))) = SEQUENCED"
    by (simp_all add: ping_pc_def peer_analyse_def peer_analyse_reliable_def has_opt_def
        run_peer_simps)
  have c: "fst (peer_analyse run_peer (header (rel_pc RUDP_CMD_APP 5))) = UNSEQUENCED"
    "fst (peer_analyse run_peer (header (rel_pc RUDP_CMD_APP 0xFFFF))) = RETRANSMITTED"
    "fst (peer_analyse run_peer (header (rel_pc RUDP_CMD_CLOSE 0))) = SEQUENCED"
    by (simp_all add: peer_analyse_def peer_analyse_reliable_def rel_pc_def ack_hdr_def
        has_opt_def run_peer_simps)
  have k: "command (header (rel_pc RUDP_CMD_APP 5)) = RUDP_CMD_APP"
    "command (header (rel_pc RUDP_CMD_APP 0xFFFF)) = RUDP_CMD_APP"
    "command (header (rel_pc RUDP_CMD_CLOSE 0)) = RUDP_CMD_CLOSE"
    by (simp_all add: rel_pc_def ack_hdr_def)
  have q: "sendq run_peer = []" "\<not> must_ack run_peer"
    by (simp_all add: run_peer_simps)
  have p: "snd (peer_analyse run_peer (header (rel_pc RUDP_CMD_CLOSE 0)))
             = run_peer\<lparr>in_seq_reliable := 0, in_seq_unreliable := 0\<rparr>"
    by (simp add: peer_analyse_def peer_analyse_reliable_def rel_pc_def ack_hdr_def
        has_opt_def run_peer_simps)
  show ?thesis
    using C10_reliable_posts_ack [OF r(1) a(1), of 1500]
      C10_reliable_posts_ack [OF r(2) a(2), of 1500]
      C10_reliable_posts_ack [OF r(3) a(3), of 1500]
      C10_reliable_posts_ack [OF r(4) a(4), of 1500]
      r a c k q pg
    by (simp add: p)
qed

text \<open>
  A second exception: a reliable packet whose ACK field runs ahead of \<open>out_seq_reliable\<close>
  (here 20 against 10) is refused before it is classified, and \<open>must_ack\<close> stays clear.
\<close>

theorem C10_counterexample:
  "has_opt (ack_hdr RUDP_CMD_APP 3 20 0) RUDP_OPT_RELIABLE
   \<and> command (ack_hdr RUDP_CMD_APP 3 20 0) \<noteq> RUDP_CMD_CLOSE
   \<and> rudp_peer_incoming_packet 1500 run_peer \<lparr>header = ack_hdr RUDP_CMD_APP 3 20 0, data = [], len = 8\<rparr>
       = (EINVAL, run_peer, [])
   \<and> \<not> must_ack (fst (snd (rudp_peer_incoming_packet 1500 run_peer
                              \<lparr>header = ack_hdr RUDP_CMD_APP 3 20 0, data = [], len = 8\<rparr>)))"
  by (simp add: run_peer_simps ack_hdr_def has_opt_def rudp_peer_incoming_packet_def
      peer_handle_ack_def Let_def)

section \<open>Service after the deadline\<close>

text \<open>
  C4. A service run at a time strictly after \<open>abs_timeout_deadline\<close> is to put the peer
  into \<open>PEER_DEAD\<close>, call \<open>dropped\<close> and do nothing else. Evaluated on a peer in
  state RUN whose deadline is 11000, serviced at 11001: \<open>dropped\<close> is the only thing
  that happens, no PING is queued and nothing is sent, also with a packet waiting in the
  queue; but the state is still \<open>PEER_RUN\<close>. \<open>peer_service\<close> never assigns
  \<open>PEER_DEAD\<close>, which the CLOSE branch of \<open>rudp_peer_incoming_packet\<close> does before
  it calls the same handler: the same peer, given a CLOSE in sequence, is dropped in state
  \<open>PEER_DEAD\<close>.
\<close>

theorem C4_service_past_deadline:
  "abs_timeout_deadline run_peer < 11001
   \<and> peer_service (\<lambda>_. 0) 11001 run_peer = (run_peer\<lparr>scheduled := False\<rparr>, [Dropped])
   \<and> state (fst (peer_service (\<lambda>_. 0) 11001 run_peer)) = PEER_RUN
   \<and> peer_service (\<lambda>_. 0) 11001 (run_peer\<lparr>sendq := [qent 1 11]\<rparr>)
       = (run_peer\<lparr>sendq := [qent 1 11], scheduled := False\<rparr>, [Dropped])
   \<and> snd (snd (rudp_peer_incoming_packet 1500 run_peer close_pc)) = [Dropped]
   \<and> state (fst (snd (rudp_peer_incoming_packet 1500 run_peer close_pc))) = PEER_DEAD"
  by (simp add: peer_service_def run_peer_simps close_pc_def rudp_peer_incoming_packet_def
      incoming_dispatch_def peer_analyse_def peer_analyse_unreliable_def header0_def
      has_opt_def Let_def)

section \<open>The connected handler of the client\<close>

text \<open>
  C6. The client is to call \<open>connected\<close> only when its peer goes from CONNECTING to RUN.
  Evaluated on a client that has sent its connection request and has not been answered: an
  8-byte unreliable NOOP of a foreign sequence is ignored by the engine, the peer stays in
  \<open>PEER_CONNECTING\<close>, and \<open>connected\<close> is called all the same, because the shell
  tests only the error code and its own flag. A CLOSE in sequence makes the engine drop the
  peer: \<open>server_lost\<close> is called, and \<open>connected\<close> right after it, with the peer
  reset to \<open>PEER_NEW\<close>.
\<close>

theorem C6_connected_without_handshake:
  "state (client_peer connecting_client) = PEER_CONNECTING
   \<and> \<not> connected connecting_client
   \<and> snd (client_handle_endpoint_packet 1500 4 connecting_client stray_noop) = [Connected]
   \<and> connected (fst (client_handle_endpoint_packet 1500 4 connecting_client stray_noop))
   \<and> state (client_peer (fst (client_handle_endpoint_packet 1500 4 connecting_client stray_noop)))
       = PEER_CONNECTING
   \<and> snd (client_handle_endpoint_packet 1500 4 connecting_client close_pc)
       = [Server_lost, Connected]
   \<and> state (client_peer (fst (client_handle_endpoint_packet 1500 4 connecting_client close_pc)))
       = PEER_NEW"
  by (simp add: connecting_client_simps client_handle_endpoint_packet_def stray_noop_def
      close_pc_def rudp_peer_incoming_packet_def incoming_dispatch_def peer_analyse_def
      peer_analyse_unreliable_def incoming_finish_def peer_service_schedule_def
      client_peer_dropped_def rudp_peer_deinit_def rudp_peer_reset_def
      header0_def has_opt_def Let_def)

section \<open>Datagrams from unknown sources\<close>

text \<open>
  C7. For a datagram whose source matches no peer, the server is to make a peer only for a
  CONN_REQ of the right length, and to call \<open>peer_new\<close> when the engine accepts the
  request, that is when the handshake has taken the new peer to RUN; a peer whose request is
  rejected is to be removed. Evaluated on a server with one peer and 12-byte reliable
  connection requests from another address. With sequence number 77 the new peer answers
  with a CONN_RSP and is in \<open>PEER_RUN\<close> when \<open>peer_new\<close> is called. With sequence
  number 0, which a fresh peer (\<open>in_seq_reliable = 0xFFFF\<close>) takes for the next in
  sequence, and with 0xFFFF, which it takes for a duplicate, the engine does nothing with the
  request and returns 0: the server, which tests only the error code, calls \<open>peer_new\<close>
  for a peer that is still in \<open>PEER_NEW\<close> and has queued a NOOP and no CONN_RSP. A
  datagram that is not a connection request leaves the server as it was.
\<close>

theorem C7_peer_new_without_handshake:
  "rudp_server_peer_lookup busy_server addr_b = None
   \<and> len (conn_req_pc 1 0 0) = sizeof_conn_req
   \<and> command (header (conn_req_pc 1 0 0)) = RUDP_CMD_CONN_REQ
   \<and> fst (peer_analyse (rudp_peer_from_sockaddr 2000 30 addr_b) (header (conn_req_pc 1 0 0)))
       = SEQUENCED
   \<and> snd (server_handle_endpoint_packet True 2000 30 busy_server addr_b (conn_req_pc 1 0 0))
       = [Peer_new addr_b]
   \<and> map (\<lambda>p. (address p, state p, map (\<lambda>pc. command (header pc)) (sendq p)))
         (peer_list (fst (server_handle_endpoint_packet True 2000 30 busy_server addr_b
                            (conn_req_pc 1 0 0))))
       = [(addr_b, PEER_NEW, [RUDP_CMD_NOOP]), (addr_a, PEER_RUN, [])]
   \<and> fst (peer_analyse (rudp_peer_from_sockaddr 2000 30 addr_b)
             (header (conn_req_pc 1 0 0xFFFF)))
       = RETRANSMITTED
   \<and> snd (server_handle_endpoint_packet True 2000 30 busy_server addr_b (conn_req_pc 1 0 0xFFFF))
       = [Peer_new addr_b]
   \<and> map (\<lambda>p. (address p, state p, map (\<lambda>pc. command (header pc)) (sendq p)))
         (peer_list (fst (server_handle_endpoint_packet True 2000 30 busy_server addr_b
                            (conn_req_pc 1 0 0xFFFF))))
       = [(addr_b, PEER_NEW, [RUDP_CMD_NOOP]), (addr_a, PEER_RUN, [])]
   \<and> fst (peer_analyse (rudp_peer_from_sockaddr 2000 30 addr_b) (header (conn_req_pc 1 0 77)))
       = UNSEQUENCED
   \<and> snd (server_handle_endpoint_packet True 2000 30 busy_server addr_b (conn_req_pc 1 0 77))
       = [Peer_new addr_b]
   \<and> map (\<lambda>p. (address p, state p, map (\<lambda>pc. command (header pc)) (sendq p)))
         (peer_list (fst (server_handle_endpoint_packet True 2000 30 busy_server addr_b
                            (conn_req_pc 1 0 77))))
       = [(addr_b, PEER_RUN, [RUDP_CMD_CONN_RSP]), (addr_a, PEER_RUN, [])]
   \<and> server_handle_endpoint_packet True 2000 30 busy_server addr_b (rel_pc RUDP_CMD_APP 77)
       = (busy_server, [])"
  by (simp add: rudp_server_peer_lookup_def busy_server_def rudp_peer_address_compare_def
      rudp_address_compare_def addr_a_def addr_b_def server_handle_endpoint_packet_def
      server_peer_new_def fresh_peer_b [unfolded addr_b_def] run_peer_simps conn_req_pc_def
      rel_pc_def ack_hdr_def has_opt_def rudp_peer_incoming_packet_def incoming_dispatch_def
      peer_analyse_def peer_analyse_reliable_def peer_handle_connreq_def
      rudp_peer_send_unreliable_def peer_service_schedule_def incoming_finish_def
      peer_post_ack_def header0_def Let_def)

text \<open>The length and command test of the server lets the connection request of 12 bytes
  pass and stops the data packet of 8 bytes.\<close>

theorem C7_witness:
  "len (conn_req_pc 1 0 0) = sizeof_conn_req
   \<and> command (header (conn_req_pc 1 0 0)) = RUDP_CMD_CONN_REQ
   \<and> snd (server_handle_endpoint_packet True 2000 30 busy_server addr_b (conn_req_pc 1 0 0))
       = [Peer_new addr_b]
   \<and> map state (peer_list (fst (server_handle_endpoint_packet True 2000 30 busy_server addr_b
                                    (conn_req_pc 1 0 0))))
       = [PEER_NEW, PEER_RUN]
   \<and> len (rel_pc RUDP_CMD_APP 77) = sizeof_header
   \<and> command (header (rel_pc RUDP_CMD_APP 77)) = RUDP_CMD_APP
   \<and> server_handle_endpoint_packet True 2000 30 busy_server addr_b (rel_pc RUDP_CMD_APP 77)
       = (busy_server, [])"
proof -
  have ok: "len (conn_req_pc 1 0 0) = sizeof_conn_req"
    "command (header (conn_req_pc 1 0 0)) = RUDP_CMD_CONN_REQ"
    by (simp_all add: conn_req_pc_def ack_hdr_def)
  have no: "len (rel_pc RUDP_CMD_APP 77) = sizeof_header"
    "command (header (rel_pc RUDP_CMD_APP 77)) = RUDP_CMD_APP"
    by (simp_all add: rel_pc_def ack_hdr_def)
  have "map state (peer_list (fst (server_handle_endpoint_packet True 2000 30 busy_server addr_b
                                    (conn_req_pc 1 0 0))))
          = map (\<lambda>(a, s, q). s)
              (map (\<lambda>p. (address p, state p, map (\<lambda>pc. command (header pc)) (sendq p)))
                 (peer_list (fst (server_handle_endpoint_packet True 2000 30 busy_server addr_b
                                    (conn_req_pc 1 0 0)))))"
    by (simp add: comp_def)
  then show ?thesis
    using C7_peer_new_without_handshake ok no by simp
qed

end
